theory Spec2Isabelle
  imports Complex_Main
begin

section \<open>chem-autotutor: a model of \<open>build.py\<close>\<close>

text \<open>
  The script is modelled function by function. A Python \<open>str\<close> is the list of its code
  points; the model takes them from Isabelle's \<open>char\<close>, that is the code points below 256,
  and every character class below is Python's own class cut down to that range. A Python
  \<open>int\<close> is an \<open>int\<close>. An exception is a value of \<open>exc\<close>, and a function that can raise
  returns \<open>exc + 'a\<close> with the exception on the left.
\<close>

subsection \<open>Exceptions\<close>

datatype exc =
    NameError string
  | UnboundLocalError string
  | OverflowError string
  | IndexError string
  | RuntimeError string
  | ValueError string
  | TypeError string
  | CalledProcessError int
  | OSError string

subsection \<open>Character classes and \<open>str\<close> methods\<close>

text \<open>
  \<open>[A-Z]\<close>, \<open>[a-z]\<close> and \<open>\d\<close> of the regular expression, and the characters
  \<open>str.strip\<close>, \<open>str.split\<close> and \<open>str.splitlines\<close> act on. Below 256 the decimal
  digits are \<open>0\<close> to \<open>9\<close>; the white space is TAB, LF, VT, FF, CR, FS, GS, RS, US, the
  space, NEL and the no-break space; the line boundaries are LF, VT, FF, CR, FS, GS, RS
  and NEL, with CR LF counting as one.
\<close>

definition is_upper :: "char \<Rightarrow> bool" where
  "is_upper c = (65 \<le> (of_char c :: nat) \<and> (of_char c :: nat) \<le> 90)"

definition is_lower :: "char \<Rightarrow> bool" where
  "is_lower c = (97 \<le> (of_char c :: nat) \<and> (of_char c :: nat) \<le> 122)"

definition is_digit :: "char \<Rightarrow> bool" where
  "is_digit c = (48 \<le> (of_char c :: nat) \<and> (of_char c :: nat) \<le> 57)"

definition is_space :: "char \<Rightarrow> bool" where
  "is_space c = ((of_char c :: nat) \<in> {9, 10, 11, 12, 13, 28, 29, 30, 31, 32, 133, 160})"

definition is_linebreak :: "char \<Rightarrow> bool" where
  "is_linebreak c = ((of_char c :: nat) \<in> {10, 11, 12, 13, 28, 29, 30, 133})"

definition strip :: "string \<Rightarrow> string" where
  "strip s = rev (dropWhile is_space (rev (dropWhile is_space s)))"

text \<open>\<open>s.splitlines()\<close>: no line for an empty string, none after a final boundary.\<close>

function splitlines :: "string \<Rightarrow> string list" where
  "splitlines [] = []"
| "splitlines (c # cs) =
     (let s = c # cs;
          line = takeWhile (\<lambda>x. \<not> is_linebreak x) s;
          rest = dropWhile (\<lambda>x. \<not> is_linebreak x) s
      in case rest of
           [] \<Rightarrow> [line]
         | b # rest' \<Rightarrow>
             line # splitlines
               (if b = CHR 0x0D \<and> rest' \<noteq> [] \<and> hd rest' = CHR 0x0A then tl rest' else rest'))"
  by pat_completeness auto
termination
proof (relation "measure length", goal_cases)
  case 1
  show ?case by simp
next
  case (2 c cs s line rest b rest')
  have "length rest \<le> length s"
    unfolding 2 by (rule length_dropWhile_le)
  moreover have "rest = b # rest'" using 2 by simp
  moreover have "length (tl rest') \<le> length rest'" by simp
  ultimately show ?case using 2 by auto
qed

declare splitlines.simps [simp del]

text \<open>\<open>s.split()\<close>: the maximal runs of characters that are not white space.\<close>

function split :: "string \<Rightarrow> string list" where
  "split s =
     (case dropWhile is_space s of
        [] \<Rightarrow> []
      | c # cs \<Rightarrow>
          (c # takeWhile (\<lambda>x. \<not> is_space x) cs) # split (dropWhile (\<lambda>x. \<not> is_space x) cs))"
  by pat_completeness auto
termination
proof (relation "measure length", goal_cases)
  case 1
  show ?case by simp
next
  case (2 s c cs)
  have "length (dropWhile (\<lambda>x. \<not> is_space x) cs) \<le> length cs"
    by (rule length_dropWhile_le)
  moreover have "length (c # cs) \<le> length s"
    unfolding 2 [symmetric] by (rule length_dropWhile_le)
  ultimately show ?case by simp
qed

declare split.simps [simp del]

text \<open>\<open>xs[0]\<close>.\<close>

definition first_item :: "'a list \<Rightarrow> exc + 'a" where
  "first_item xs = (case xs of [] \<Rightarrow> Inl (IndexError ''list index out of range'') | x # _ \<Rightarrow> Inr x)"

subsection \<open>Element counts: \<open>re.findall\<close>, \<open>dict\<close> and \<open>get\<close> in \<open>compute_facts\<close>\<close>

text \<open>
  \<^verbatim>\<open>re.findall(r'([A-Z][a-z]?)(\d*)', formula)\<close> scans from the left. Where the
  pattern matches it takes an upper-case letter, a lower-case letter if one follows, and
  all the digits that follow; the match is never empty, and the scan goes on behind it.
  Where it does not match, the scan moves one character on. The result is the list of the
  two groups of every match.
\<close>

function findall :: "string \<Rightarrow> (string \<times> string) list" where
  "findall [] = []"
| "findall (c # cs) =
     (if is_upper c then
        (case cs of
           l # cs' \<Rightarrow>
             if is_lower l
             then ([c, l], takeWhile is_digit cs') # findall (dropWhile is_digit cs')
             else ([c], takeWhile is_digit cs) # findall (dropWhile is_digit cs)
         | [] \<Rightarrow> [([c], [])])
      else findall cs)"
  by pat_completeness auto
termination
  by (relation "measure length")
    (auto simp: less_Suc_eq_le intro: le_trans [OF length_dropWhile_le])

declare findall.simps [simp del]

text \<open>\<open>dict(pairs)\<close>: a later pair replaces an earlier one with the same key.\<close>

definition dict :: "(string \<times> string) list \<Rightarrow> string \<rightharpoonup> string" where
  "dict kvs = map_of (rev kvs)"

text \<open>
  \<open>int(v)\<close> on a string: its decimal value when it is a non-empty string of digits of at
  most 4300 characters (the interpreter's default limit), ValueError otherwise.
\<close>

definition digit_val :: "char \<Rightarrow> int" where
  "digit_val c = int (of_char c) - 48"

definition py_int :: "string \<Rightarrow> exc + int" where
  "py_int v =
     (if v = [] \<or> \<not> list_all is_digit v
      then Inl (ValueError ''invalid literal for int() with base 10'')
      else if 4300 < length v
      then Inl (ValueError ''Exceeds the limit (4300 digits) for integer string conversion'')
      else Inr (foldl (\<lambda>a c. 10 * a + digit_val c) 0 v))"

text \<open>
  The local function \<open>get\<close>:
  \<^verbatim>\<open>v = counts.get(sym); if v is None: return 0; return int(v) if v != "" else 1\<close>
\<close>

definition get :: "(string \<rightharpoonup> string) \<Rightarrow> string \<Rightarrow> exc + int" where
  "get counts symb =
     (case counts symb of
        None \<Rightarrow> Inr 0
      | Some v \<Rightarrow> if v \<noteq> [] then py_int v else Inr 1)"

text \<open>The dictionary \<open>counts\<close> that \<open>compute_facts\<close> builds from the formula string.\<close>

definition element_counts :: "string \<Rightarrow> string \<rightharpoonup> string" where
  "element_counts formula = dict (findall formula)"

text \<open>An element symbol: one upper-case letter, or one followed by one lower-case letter.\<close>

definition is_symbol :: "string \<Rightarrow> bool" where
  "is_symbol s =
     (case s of
        [u] \<Rightarrow> is_upper u
      | [u, l] \<Rightarrow> is_upper u \<and> is_lower l
      | _ \<Rightarrow> False)"

subsection \<open>Python floats that are halves of integers\<close>

text \<open>
  The only floats the script computes itself come from \<open>h_equiv / 2\<close> and
  \<open>1 + nC - ...\<close> in \<open>formula_du\<close>: an integer divided by two, an integer converted
  to float, and their difference. Each is a multiple of one half, or an infinity.
  \<open>Half k\<close> is the double of value \<open>k / 2\<close>; \<open>float_val\<close> gives the value of a
  finite double. A double keeps 53 significant bits and rounds to nearest, ties to even:
  \<open>round53\<close> does that to an integer, and scaling by two does not change which bits
  are kept.
\<close>

datatype pyfloat = Half int | PosInf | NegInf | NaN

fun float_val :: "pyfloat \<Rightarrow> rat option" where
  "float_val (Half k) = Some (of_int k / 2)"
| "float_val PosInf = None"
| "float_val NegInf = None"
| "float_val NaN = None"

function excess_bits :: "nat \<Rightarrow> nat" where
  "excess_bits n = (if n < 2 ^ 53 then 0 else Suc (excess_bits (n div 2)))"
  by pat_completeness auto
termination
  by (relation "measure (\<lambda>n. n)") auto

declare excess_bits.simps [simp del]

definition round53_nat :: "nat \<Rightarrow> nat" where
  "round53_nat n =
     (let s = excess_bits n in
      if s = 0 then n
      else let q = n div 2 ^ s; r = n mod 2 ^ s; h = 2 ^ (s - 1)
           in (if h < r \<or> (r = h \<and> odd q) then q + 1 else q) * 2 ^ s)"

definition round53 :: "int \<Rightarrow> int" where
  "round53 k = (if k < 0 then - int (round53_nat (nat (- k))) else int (round53_nat (nat k)))"

text \<open>
  Every finite double is below \<open>dbl_limit\<close> in magnitude, and a value that rounds to
  \<open>dbl_limit\<close> or beyond overflows.
\<close>

definition dbl_limit :: int where
  "dbl_limit = 2 ^ 1024"

text \<open>
  \<open>a / 2\<close> on an \<open>int\<close>: the correctly rounded quotient, or OverflowError when it
  overflows. \<open>k\<close> counts halves, so the limit is doubled.
\<close>

definition int_truediv_2 :: "int \<Rightarrow> exc + pyfloat" where
  "int_truediv_2 a =
     (let k = round53 a in
      if 2 * dbl_limit \<le> \<bar>k\<bar> then Inl (OverflowError ''integer division result too large for a float'')
      else Inr (Half k))"

text \<open>The conversion of an \<open>int\<close> operand to float in mixed arithmetic.\<close>

definition int_to_float :: "int \<Rightarrow> exc + pyfloat" where
  "int_to_float a =
     (let k = round53 a in
      if dbl_limit \<le> \<bar>k\<bar> then Inl (OverflowError ''int too large to convert to float'')
      else Inr (Half (2 * k)))"

text \<open>
  Subtraction of doubles: the exact difference, rounded; beyond the largest double it
  is an infinity and nothing is raised. The difference of two infinities of one sign is
  a NaN, and so is any difference with a NaN.
\<close>

definition round_half :: "int \<Rightarrow> pyfloat" where
  "round_half d =
     (let k = round53 d in
      if 2 * dbl_limit \<le> k then PosInf else if k \<le> - (2 * dbl_limit) then NegInf else Half k)"

fun float_sub :: "pyfloat \<Rightarrow> pyfloat \<Rightarrow> pyfloat" where
  "float_sub (Half a) (Half b) = round_half (a - b)"
| "float_sub (Half a) PosInf = NegInf"
| "float_sub (Half a) NegInf = PosInf"
| "float_sub PosInf (Half b) = PosInf"
| "float_sub NegInf (Half b) = NegInf"
| "float_sub PosInf NegInf = PosInf"
| "float_sub NegInf PosInf = NegInf"
| "float_sub PosInf PosInf = NaN"
| "float_sub NegInf NegInf = NaN"
| "float_sub NaN y = NaN"
| "float_sub x NaN = NaN"

subsection \<open>\<open>formula_du\<close>\<close>

text \<open>
  \<^verbatim>\<open>h_equiv = nH + nX - nN\<close>, \<^verbatim>\<open>return 1 + nC - h_equiv / 2\<close>. The left operand
  \<open>1 + nC\<close> is an \<open>int\<close>, the division is evaluated next, then the \<open>int\<close> is converted and
  the two floats are subtracted.
\<close>

definition formula_du :: "int \<Rightarrow> int \<Rightarrow> int \<Rightarrow> int \<Rightarrow> exc + pyfloat" where
  "formula_du nC nH nN nX =
     (let h_equiv = nH + nX - nN; lhs = 1 + nC in
      case int_truediv_2 h_equiv of
        Inl e \<Rightarrow> Inl e
      | Inr half \<Rightarrow>
          (case int_to_float lhs of
             Inl e \<Rightarrow> Inl e
           | Inr x \<Rightarrow> Inr (float_sub x half)))"

subsection \<open>The file system and the external process\<close>

text \<open>
  A file system maps a path to the text of the file there. What the operating system
  and the OPSIN process do is not in the script, so it is a parameter: \<open>mkstemp\<close> gives
  the path of the temporary file it makes for a prefix (or fails), and \<open>run_process\<close>
  gives, for a command line and a file system, either a failure to start or an exit
  status, with the file system the process leaves behind. The process may write, replace
  or remove any file. \<open>here\<close> is the directory of the script (\<open>HERE\<close>).
\<close>

type_synonym path = string

type_synonym fs = "path \<rightharpoonup> string"

datatype proc_result = SpawnFailed | Exited int

record os_env =
  here :: path
  mkstemp :: "string \<Rightarrow> fs \<Rightarrow> path option"
  run_process :: "string list \<Rightarrow> fs \<Rightarrow> proc_result \<times> fs"

text \<open>\<open>a / b\<close> on paths, for a relative \<open>b\<close>.\<close>

definition path_join :: "path \<Rightarrow> path \<Rightarrow> path" where
  "path_join a b = a @ ''/'' @ b"

definition OPSIN :: "os_env \<Rightarrow> path" where
  "OPSIN env = path_join (here env) ''opsin.jar''"

text \<open>\<open>os.unlink(p)\<close> raises an OSError when there is no file at \<open>p\<close>.\<close>

definition unlink :: "path \<Rightarrow> fs \<Rightarrow> exc + fs" where
  "unlink p f = (if f p = None then Inl (OSError ''FileNotFoundError'') else Inr (f(p := None)))"

text \<open>\<^verbatim>\<open>try: os.unlink(p)\<close> / \<^verbatim>\<open>except OSError: pass\<close>\<close>

definition unlink_quiet :: "path \<Rightarrow> fs \<Rightarrow> fs" where
  "unlink_quiet p f = (case unlink p f of Inl e \<Rightarrow> f | Inr f' \<Rightarrow> f')"

text \<open>\<open>subprocess.check_call(cmd)\<close>: a non-zero exit status raises CalledProcessError.\<close>

definition check_call :: "os_env \<Rightarrow> string list \<Rightarrow> fs \<Rightarrow> (exc + unit) \<times> fs" where
  "check_call env cmd f =
     (case run_process env cmd f of
        (SpawnFailed, f') \<Rightarrow> (Inl (OSError ''FileNotFoundError''), f')
      | (Exited rc, f') \<Rightarrow> (if rc \<noteq> 0 then Inl (CalledProcessError rc) else Inr (), f'))"

text \<open>\<open>Path(p).read_text()\<close>.\<close>

definition read_text :: "path \<Rightarrow> fs \<Rightarrow> exc + string" where
  "read_text p f = (case f p of None \<Rightarrow> Inl (OSError ''FileNotFoundError'') | Some t \<Rightarrow> Inr t)"

subsection \<open>\<open>name_to_smiles\<close>\<close>

text \<open>
  What follows \<open>subprocess.check_call(cmd)\<close> inside the \<open>try\<close>:
  \<^verbatim>\<open>out = pathlib.Path(out_path).read_text(encoding="utf-8").strip()\<close>,
  \<^verbatim>\<open>smi = out.splitlines()[0].split()[0]\<close>,
  \<^verbatim>\<open>if not smi: raise RuntimeError("OPSIN returned empty SMILES")\<close>,
  \<^verbatim>\<open>return smi\<close>.
\<close>

definition extract_smiles :: "string \<Rightarrow> exc + string" where
  "extract_smiles text =
     (let out = strip text in
      case first_item (splitlines out) of
        Inl e \<Rightarrow> Inl e
      | Inr line \<Rightarrow>
          (case first_item (split line) of
             Inl e \<Rightarrow> Inl e
           | Inr smi \<Rightarrow>
               if smi = [] then Inl (RuntimeError ''OPSIN returned empty SMILES'')
               else Inr smi))"

text \<open>The body of the \<open>try\<close>, with the two temporary files already made.\<close>

definition name_to_smiles_try :: "os_env \<Rightarrow> path \<Rightarrow> path \<Rightarrow> string \<Rightarrow> fs \<Rightarrow> (exc + string) \<times> fs" where
  "name_to_smiles_try env in_path out_path name f =
     (let f1 = f(in_path \<mapsto> strip name @ [CHR 0x0A]);
          cmd = [''java'', ''-jar'', OPSIN env, ''-osmi'', in_path, out_path]
      in case check_call env cmd f1 of
           (Inl e, f2) \<Rightarrow> (Inl e, f2)
         | (Inr u, f2) \<Rightarrow>
             (case read_text out_path f2 of
                Inl e \<Rightarrow> (Inl e, f2)
              | Inr text \<Rightarrow> (extract_smiles text, f2)))"

text \<open>
  The whole function: two \<open>mkstemp\<close> calls, each leaving an empty file, then the
  \<open>try\<close> with its \<open>finally\<close>, which unlinks the request file and then the response
  file whatever the body did. A failure of the second \<open>mkstemp\<close> is raised before the
  \<open>try\<close> is entered.
\<close>

definition name_to_smiles :: "os_env \<Rightarrow> string \<Rightarrow> fs \<Rightarrow> (exc + string) \<times> fs" where
  "name_to_smiles env name f =
     (case mkstemp env ''opsin_in_'' f of
        None \<Rightarrow> (Inl (OSError ''mkstemp''), f)
      | Some in_path \<Rightarrow>
          (let f' = f(in_path \<mapsto> []) in
           case mkstemp env ''opsin_out_'' f' of
             None \<Rightarrow> (Inl (OSError ''mkstemp''), f')
           | Some out_path \<Rightarrow>
               (case name_to_smiles_try env in_path out_path name (f'(out_path \<mapsto> [])) of
                  (r, f2) \<Rightarrow> (r, unlink_quiet out_path (unlink_quiet in_path f2)))))"

text \<open>
  A test double for the operating system and OPSIN, for concrete runs: temporary files
  get the names \<open>/tmp/<prefix>0\<close>; the process exits with the given status and, when the
  status is 0, has written the given response to the response file, the last word of its
  command line.
\<close>

definition tmp_names :: "string \<Rightarrow> fs \<Rightarrow> path option" where
  "tmp_names prefix f = Some (''/tmp/'' @ prefix @ ''0'')"

definition opsin_double :: "string \<Rightarrow> int \<Rightarrow> os_env" where
  "opsin_double response rc =
     \<lparr>here = ''/app'', mkstemp = tmp_names,
      run_process = (\<lambda>cmd f. (Exited rc, if rc = 0 then f(last cmd \<mapsto> response) else f))\<rparr>"

subsection \<open>Formatting\<close>

text \<open>
  \<open>str(n)\<close> and \<open>{n}\<close> for a natural number, \<open>{t:02d}\<close> (at least two digits, padded
  with a zero), and \<open>{du:.1f}\<close> for a float that is a number of halves: the digit after
  the point is 0 or 5 and nothing is rounded. \<open>"sep".join(xs)\<close> puts \<open>sep\<close> between
  the items.
\<close>

definition digit_char :: "nat \<Rightarrow> char" where
  "digit_char d = ''0123456789'' ! d"

function str_nat :: "nat \<Rightarrow> string" where
  "str_nat n = (if n < 10 then [digit_char n] else str_nat (n div 10) @ [digit_char (n mod 10)])"
  by pat_completeness auto
termination
  by (relation "measure (\<lambda>n. n)") auto

declare str_nat.simps [simp del]

definition fmt_02d :: "nat \<Rightarrow> string" where
  "fmt_02d t = (if t < 10 then ''0'' @ str_nat t else str_nat t)"

fun fmt_1f :: "pyfloat \<Rightarrow> string" where
  "fmt_1f (Half k) =
     (if k < 0 then ''-'' else []) @ str_nat (nat \<bar>k\<bar> div 2) @ ''.'' @ (if odd k then ''5'' else ''0'')"
| "fmt_1f PosInf = ''inf''"
| "fmt_1f NegInf = ''-inf''"
| "fmt_1f NaN = ''nan''"

fun join :: "string \<Rightarrow> string list \<Rightarrow> string" where
  "join sep [] = []"
| "join sep [x] = x"
| "join sep (x # y # ys) = x @ sep @ join sep (y # ys)"

text \<open>\<open>{title}\<close> in an f-string: the string itself, or \<open>None\<close> spelt out.\<close>

fun fmt_opt :: "string option \<Rightarrow> string" where
  "fmt_opt None = ''None''"
| "fmt_opt (Some s) = s"

text \<open>The truth value of an optional string: \<open>None\<close> and the empty string are false.\<close>

fun truthy :: "string option \<Rightarrow> bool" where
  "truthy None = False"
| "truthy (Some s) = (s \<noteq> [])"

text \<open>\<open>a or b\<close>: \<open>a\<close> when it is true, \<open>b\<close> otherwise.\<close>

definition py_or :: "string option \<Rightarrow> string option \<Rightarrow> string option" where
  "py_or a b = (if truthy a then a else b)"

subsection \<open>\<open>make_script\<close>\<close>

text \<open>
  The four narration lines (the local \<open>bullets\<close> of \<open>make_script\<close>). The exact mass
  \<open>mw\<close> is a float that comes from the chemistry library; it enters through its
  \<open>str()\<close>, here the string \<open>mw_str\<close>.
\<close>

definition narration :: "string option \<Rightarrow> string \<Rightarrow> string \<Rightarrow> string \<Rightarrow> pyfloat \<Rightarrow> string list" where
  "narration title formula_s mw_str smiles_s du =
     [''Title: '' @ fmt_opt title,
      ''Formula: '' @ formula_s @ '' | Exact mass '' @ mw_str @ '' u | SMILES: '' @ smiles_s,
      ''Unsaturation (rings + double + 2*triple): DU = '' @ fmt_1f du,
      ''Naming checklist: longest chain, lowest locants for multiple bonds, then substituents alphabetically.'']"

text \<open>
  The loop \<^verbatim>\<open>for i, line in enumerate(bullets, 1)\<close> with its counter \<open>t\<close>: one entry
  \<^verbatim>\<open>f"{i}\n00:00:{t:02d},000 --> 00:00:{t+3:02d},000\n{line}\n"\<close> for each line, and
  \<open>t += 3\<close>.
\<close>

fun srt_loop :: "nat \<Rightarrow> nat \<Rightarrow> string list \<Rightarrow> string list" where
  "srt_loop i t [] = []"
| "srt_loop i t (line # rest) =
     (str_nat i @ [CHR 0x0A] @ ''00:00:'' @ fmt_02d t @ '',000 --> 00:00:'' @ fmt_02d (t + 3) @ '',000''
        @ [CHR 0x0A] @ line @ [CHR 0x0A])
     # srt_loop (i + 1) (t + 3) rest"

definition make_script :: "string option \<Rightarrow> string \<Rightarrow> string \<Rightarrow> string \<Rightarrow> pyfloat \<Rightarrow> string \<times> string" where
  "make_script title formula_s mw_str smiles_s du =
     (let bullets = narration title formula_s mw_str smiles_s du;
          voiceover = join [CHR 0x0A] bullets;
          srt_lines = srt_loop 1 0 bullets
      in (voiceover, join [CHR 0x0A] srt_lines))"

text \<open>
  A SubRip time stamp for a time in milliseconds, \<open>hours:minutes:seconds,milliseconds\<close>
  with two, two, two and three digits, and a caption block: its number, its start and
  end time, its text. These follow the format, not the script.
\<close>

definition fmt_03d :: "nat \<Rightarrow> string" where
  "fmt_03d n = (if n < 10 then ''00'' @ str_nat n else if n < 100 then ''0'' @ str_nat n else str_nat n)"

definition srt_timestamp :: "nat \<Rightarrow> string" where
  "srt_timestamp ms =
     fmt_02d (ms div 3600000) @ '':'' @ fmt_02d (ms div 60000 mod 60) @ '':''
       @ fmt_02d (ms div 1000 mod 60) @ '','' @ fmt_03d (ms mod 1000)"

definition srt_block :: "nat \<Rightarrow> nat \<Rightarrow> nat \<Rightarrow> string \<Rightarrow> string" where
  "srt_block i start_ms end_ms line =
     str_nat i @ [CHR 0x0A] @ srt_timestamp start_ms @ '' --> '' @ srt_timestamp end_ms
       @ [CHR 0x0A] @ line @ [CHR 0x0A]"

subsection \<open>Sequencing\<close>

text \<open>
  A step that can raise gives \<open>exc + 'a\<close>; a step that also reads or writes files takes
  the file system and gives it back. An exception ends the sequence, and the files
  written before it stay.
\<close>

definition bind_exc :: "exc + 'a \<Rightarrow> ('a \<Rightarrow> exc + 'b) \<Rightarrow> exc + 'b" where
  "bind_exc m k = (case m of Inl e \<Rightarrow> Inl e | Inr x \<Rightarrow> k x)"

definition bind_io :: "(fs \<Rightarrow> (exc + 'a) \<times> fs) \<Rightarrow> ('a \<Rightarrow> fs \<Rightarrow> (exc + 'b) \<times> fs) \<Rightarrow> fs \<Rightarrow> (exc + 'b) \<times> fs" where
  "bind_io m k f = (case m f of (Inl e, f') \<Rightarrow> (Inl e, f') | (Inr x, f') \<Rightarrow> k x f')"

definition io_of :: "exc + 'a \<Rightarrow> fs \<Rightarrow> (exc + 'a) \<times> fs" where
  "io_of r f = (r, f)"

definition io_return :: "'a \<Rightarrow> fs \<Rightarrow> (exc + 'a) \<times> fs" where
  "io_return x f = (Inr x, f)"

text \<open>\<open>Path(p).write_text(s)\<close>. Directories are not modelled: it always succeeds.\<close>

definition write_text :: "path \<Rightarrow> string \<Rightarrow> fs \<Rightarrow> (exc + unit) \<times> fs" where
  "write_text p s f = (Inr (), f(p \<mapsto> s))"

subsection \<open>The chemistry library and the template engine\<close>

text \<open>
  RDKit and Jinja2 are outside the script. A molecule is a value of a type \<open>'mol\<close> and a
  float that RDKit computes a value of a type \<open>'w\<close>; the calls the script makes are the
  fields of a record, and every property below holds for any such record.
  \<open>MolFromSmiles\<close> and \<open>MolFromInchi\<close> give \<open>None\<close> for a string they cannot parse.
  \<open>embed_minimize\<close> is \<open>AllChem.EmbedMolecule(mol, AllChem.ETKDG())\<close> followed by
  \<open>AllChem.UFFOptimizeMolecule(mol, maxIters=200)\<close>, both of which change the molecule
  in place; \<open>draw_png\<close> is \<open>Chem.RemoveHs\<close>, \<open>AllChem.Compute2DCoords\<close> and
  \<open>Draw.MolToFile\<close>, giving the image written. \<open>round4\<close> is \<open>round(x, 4)\<close> and
  \<open>float_str\<close> is \<open>str(x)\<close> on such a float. \<open>jinja_render\<close> is
  \<open>Template(source).render(**kwargs)\<close>.
\<close>

datatype 'w jval = JNone | JStr string | JFloat 'w | JDu pyfloat | JList "string list"

record ('mol, 'w) rdkit =
  MolFromSmiles :: "string \<Rightarrow> 'mol option"
  MolFromInchi :: "string \<Rightarrow> 'mol option"
  AddHs :: "'mol \<Rightarrow> 'mol"
  MolToSmiles :: "'mol \<Rightarrow> string"
  CalcMolFormula :: "'mol \<Rightarrow> string"
  CalcExactMolWt :: "'mol \<Rightarrow> 'w"
  embed_minimize :: "'mol \<Rightarrow> exc + 'mol"
  MolToMolBlock :: "'mol \<Rightarrow> string"
  draw_png :: "'mol \<Rightarrow> exc + string"
  round4 :: "'w \<Rightarrow> 'w"
  float_str :: "'w \<Rightarrow> string"
  jinja_render :: "string \<Rightarrow> (string \<times> 'w jval) list \<Rightarrow> exc + string"

definition TPL_HTML :: "os_env \<Rightarrow> path" where
  "TPL_HTML env = path_join (path_join (here env) ''templates'') ''page.html.j2''"

definition TPL_YT :: "os_env \<Rightarrow> path" where
  "TPL_YT env = path_join (path_join (here env) ''templates'') ''youtube_desc.md.j2''"

subsection \<open>\<open>ensure_out\<close>\<close>

text \<open>
  \<open>dirpath.mkdir(parents=True, exist_ok=True)\<close> raises when a file is in the way;
  otherwise the directory is there afterwards, which the map of files does not show.
\<close>

definition ensure_out :: "path \<Rightarrow> fs \<Rightarrow> (exc + path) \<times> fs" where
  "ensure_out dirpath f =
     (if f dirpath \<noteq> None then (Inl (OSError ''FileExistsError''), f) else (Inr dirpath, f))"

subsection \<open>\<open>mol_from_any\<close>\<close>

text \<open>
  \<^verbatim>\<open>if name: smiles = name_to_smiles(name)\<close>;
  \<^verbatim>\<open>if inchi: mol = Chem.MolFromInchi(inchi)\<close>, \<^verbatim>\<open>else: mol = Chem.MolFromSmiles(smiles)\<close>;
  \<^verbatim>\<open>if mol is None: raise ValueError(...)\<close>; \<^verbatim>\<open>mol = Chem.AddHs(mol)\<close>;
  \<^verbatim>\<open>return mol, (smiles if smiles else Chem.MolToSmiles(mol))\<close>.
  \<open>Chem.MolFromSmiles(None)\<close> is rejected by the library's argument check.
\<close>

definition smiles_of_name :: "os_env \<Rightarrow> string option \<Rightarrow> string option \<Rightarrow> fs \<Rightarrow> (exc + string option) \<times> fs" where
  "smiles_of_name env name smiles =
     (case name of
        Some n \<Rightarrow> if n \<noteq> [] then bind_io (name_to_smiles env n) (\<lambda>s. io_return (Some s))
                  else io_return smiles
      | None \<Rightarrow> io_return smiles)"

definition parse_structure :: "('mol, 'w) rdkit \<Rightarrow> string option \<Rightarrow> string option \<Rightarrow> exc + 'mol option" where
  "parse_structure lib smiles inchi =
     (case inchi of
        Some i \<Rightarrow> if i \<noteq> [] then Inr (MolFromInchi lib i)
                  else (case smiles of
                          None \<Rightarrow> Inl (TypeError ''MolFromSmiles(NoneType)'')
                        | Some s \<Rightarrow> Inr (MolFromSmiles lib s))
      | None \<Rightarrow> (case smiles of
                    None \<Rightarrow> Inl (TypeError ''MolFromSmiles(NoneType)'')
                  | Some s \<Rightarrow> Inr (MolFromSmiles lib s)))"

definition mol_from_any :: "('mol, 'w) rdkit \<Rightarrow> os_env \<Rightarrow> string option \<Rightarrow> string option \<Rightarrow> string option \<Rightarrow> fs \<Rightarrow> (exc + 'mol \<times> string) \<times> fs" where
  "mol_from_any lib env name smiles inchi =
     bind_io (smiles_of_name env name smiles) (\<lambda>smiles1.
     bind_io (io_of (parse_structure lib smiles1 inchi)) (\<lambda>parsed.
       case parsed of
         None \<Rightarrow> io_of (Inl (ValueError ''Could not parse structure from input.''))
       | Some mol0 \<Rightarrow>
           (let mol = AddHs lib mol0 in
            io_return (mol, case smiles1 of
                              Some s \<Rightarrow> if s \<noteq> [] then s else MolToSmiles lib mol
                            | None \<Rightarrow> MolToSmiles lib mol))))"

subsection \<open>\<open>compute_facts\<close>\<close>

definition compute_facts :: "('mol, 'w) rdkit \<Rightarrow> 'mol \<Rightarrow> exc + string \<times> 'w \<times> pyfloat" where
  "compute_facts lib mol =
     (let formula_s = CalcMolFormula lib mol;
          mw = round4 lib (CalcExactMolWt lib mol);
          counts = element_counts formula_s
      in bind_exc (get counts ''C'') (\<lambda>nC.
         bind_exc (get counts ''H'') (\<lambda>nH.
         bind_exc (get counts ''N'') (\<lambda>nN.
         bind_exc (get counts ''F'') (\<lambda>nF.
         bind_exc (get counts ''Cl'') (\<lambda>nCl.
         bind_exc (get counts ''Br'') (\<lambda>nBr.
         bind_exc (get counts ''I'') (\<lambda>nI.
         bind_exc (formula_du nC nH nN (nF + nCl + nBr + nI)) (\<lambda>du.
         Inr (formula_s, mw, du))))))))))"

subsection \<open>\<open>make_artifacts\<close>\<close>

definition make_artifacts :: "('mol, 'w) rdkit \<Rightarrow> 'mol \<Rightarrow> path \<Rightarrow> fs \<Rightarrow> (exc + string) \<times> fs" where
  "make_artifacts lib mol outdir =
     bind_io (io_of (embed_minimize lib mol)) (\<lambda>mol3d.
     (let sdf = MolToMolBlock lib mol3d in
      bind_io (write_text (path_join outdir ''model.sdf'') sdf) (\<lambda>u.
      bind_io (io_of (draw_png lib mol3d)) (\<lambda>png.
      bind_io (write_text (path_join outdir ''structure.png'') png) (\<lambda>u.
      io_return sdf)))))"

subsection \<open>\<open>render_html\<close>\<close>

text \<open>
  The module defines \<open>render_html\<close> twice; the second definition, with \<open>du\<close>,
  \<open>tutorial_id\<close> and \<open>subtitle\<close>, is the one bound when \<open>main\<close> runs. Its arguments
  but \<open>outdir\<close> are a record.
\<close>

record 'w page =
  p_title :: "string option"
  p_smiles :: string
  p_formula :: string
  p_mw :: 'w
  p_sdf :: string
  p_bullets :: "string list"
  p_du :: "pyfloat option"
  p_tutorial_id :: "string option"
  p_subtitle :: string

definition jval_of_opt :: "string option \<Rightarrow> 'w jval" where
  "jval_of_opt s = (case s of None \<Rightarrow> JNone | Some x \<Rightarrow> JStr x)"

definition page_kwargs :: "'w page \<Rightarrow> (string \<times> 'w jval) list" where
  "page_kwargs p =
     [(''title'', jval_of_opt (p_title p)),
      (''subtitle'', JStr (p_subtitle p)),
      (''tutorial_id'', jval_of_opt (p_tutorial_id p)),
      (''smiles'', JStr (p_smiles p)),
      (''formula'', JStr (p_formula p)),
      (''mw'', JFloat (p_mw p)),
      (''sdf'', JStr (p_sdf p)),
      (''bullets'', JList (p_bullets p)),
      (''du'', case p_du p of None \<Rightarrow> JNone | Some d \<Rightarrow> JDu d)]"

definition render_html :: "('mol, 'w) rdkit \<Rightarrow> os_env \<Rightarrow> 'w page \<Rightarrow> path \<Rightarrow> fs \<Rightarrow> (exc + unit) \<times> fs" where
  "render_html lib env p outdir =
     bind_io (\<lambda>f. (read_text (TPL_HTML env) f, f)) (\<lambda>source.
     bind_io (io_of (jinja_render lib source (page_kwargs p))) (\<lambda>html.
     write_text (path_join outdir ''index.html'') html))"

subsection \<open>\<open>make_bullets_from_name\<close>\<close>

text \<open>\<open>needle in s\<close> on strings.\<close>

fun contains :: "string \<Rightarrow> string \<Rightarrow> bool" where
  "contains needle [] = (needle = [])"
| "contains needle (c # cs) = (take (length needle) (c # cs) = needle \<or> contains needle cs)"

text \<open>
  Two of the sentences have a character beyond code point 255: U+2261 in the one for
  \<open>yn\<close> and U+2083 in the one for \<open>methyl\<close>. They stand here as the three bytes of their
  UTF-8 form; nothing below depends on them.
\<close>

definition sentence_yn :: string where
  "sentence_yn = ''Contains a C'' @ [CHR 0xE2, CHR 0x89, CHR 0xA1] @ ''C triple bond (-yn-).''"

definition sentence_methyl :: string where
  "sentence_methyl = ''Has a methyl (-CH'' @ [CHR 0xE2, CHR 0x82, CHR 0x83] @ '') substituent.''"

text \<open>
  \<^verbatim>\<open>if not name: return []\<close>, then \<open>b = []\<close> and one
  \<^verbatim>\<open>if "kw" in name: b.append(sentence)\<close> for each keyword, in this order.
\<close>

definition make_bullets_from_name :: "string option \<Rightarrow> string list" where
  "make_bullets_from_name name =
     (case name of
        None \<Rightarrow> []
      | Some n \<Rightarrow>
          if n = [] then []
          else
            (if contains ''meth'' n then [''Parent chain includes: meth- (1 carbon).''] else [])
            @ (if contains ''eth'' n then [''Parent chain includes: eth- (2 carbons).''] else [])
            @ (if contains ''prop'' n then [''Parent chain includes: prop- (3 carbons).''] else [])
            @ (if contains ''but'' n then [''Parent chain includes: but- (4 carbons).''] else [])
            @ (if contains ''pent'' n then [''Parent chain includes: pent- (5 carbons).''] else [])
            @ (if contains ''hex'' n then [''Parent chain includes: hex- (6 carbons).''] else [])
            @ (if contains ''hept'' n then [''Parent chain includes: hept- (7 carbons).''] else [])
            @ (if contains ''oct'' n then [''Parent chain includes: oct- (8 carbons).''] else [])
            @ (if contains ''non'' n then [''Parent chain includes: non- (9 carbons).''] else [])
            @ (if contains ''dec'' n then [''Parent chain includes: dec- (10 carbons).''] else [])
            @ (if contains ''en'' n then [''Contains a C=C double bond (-en-).''] else [])
            @ (if contains ''yn'' n then [sentence_yn] else [])
            @ (if contains ''methyl'' n then [sentence_methyl] else [])
            @ (if contains ''bromo'' n then [''Has a bromine substituent.''] else []))"

subsection \<open>\<open>main\<close>\<close>

text \<open>The parsed command line: exactly one of the first four is not \<open>None\<close>.\<close>

record args =
  arg_name :: "string option"
  arg_smiles :: "string option"
  arg_inchi :: "string option"
  arg_formula :: "string option"
  arg_tutorial :: "string option"
  arg_out :: string

text \<open>
  A global name is looked up when the statement that uses it runs: first among the
  names the module has bound, then among the builtins; a name bound in neither raises
  NameError. \<open>module_names\<close> are the names the statements of \<open>build.py\<close> bind at the top
  level: its imports, its four path constants and its function definitions
  (\<open>render_html\<close> twice), besides the names every module has. A namespace gives each
  bound name a value. The one value the model takes from the namespace is a function
  it then applies to the title; any other is \<open>Opaque\<close>, and the functions the module
  defines are called directly.
\<close>

datatype gval = StrFun "string option \<Rightarrow> exc + string" | Opaque

type_synonym namespace = "string \<rightharpoonup> gval"

definition module_names :: "string list" where
  "module_names =
     [''__name__'', ''__doc__'', ''__package__'', ''__loader__'', ''__spec__'', ''__file__'',
      ''__cached__'', ''__builtins__'',
      ''os'', ''argparse'', ''subprocess'', ''Path'', ''Template'', ''Chem'', ''AllChem'', ''Draw'',
      ''rdMolDescriptors'', ''HERE'', ''TPL_HTML'', ''TPL_YT'', ''OPSIN'',
      ''ensure_out'', ''name_to_smiles'', ''mol_from_any'', ''formula_du'', ''compute_facts'',
      ''make_artifacts'', ''render_html'', ''make_bullets_from_name'', ''make_script'',
      ''render_html'', ''main'']"

definition builtin_names :: "string list" where
  "builtin_names =
     [''abs'', ''aiter'', ''all'', ''anext'', ''any'', ''ascii'', ''bin'', ''bool'', ''breakpoint'',
      ''bytearray'', ''bytes'', ''callable'', ''chr'', ''classmethod'', ''compile'', ''complex'',
      ''copyright'', ''credits'', ''delattr'', ''dict'', ''dir'', ''divmod'', ''enumerate'', ''eval'',
      ''exec'', ''exit'', ''filter'', ''float'', ''format'', ''frozenset'', ''getattr'', ''globals'',
      ''hasattr'', ''hash'', ''help'', ''hex'', ''id'', ''input'', ''int'', ''isinstance'',
      ''issubclass'', ''iter'', ''len'', ''license'', ''list'', ''locals'', ''map'', ''max'',
      ''memoryview'', ''min'', ''next'', ''object'', ''oct'', ''open'', ''ord'', ''pow'', ''print'',
      ''property'', ''quit'', ''range'', ''repr'', ''reversed'', ''round'', ''set'', ''setattr'',
      ''slice'', ''sorted'', ''staticmethod'', ''str'', ''sum'', ''super'', ''tuple'', ''type'',
      ''vars'', ''zip'', ''__import__'', ''__build_class__'', ''__debug__'', ''__doc__'',
      ''__loader__'', ''__name__'', ''__package__'', ''__spec__'',
      ''True'', ''False'', ''None'', ''Ellipsis'', ''NotImplemented'',
      ''ArithmeticError'', ''AssertionError'', ''AttributeError'', ''BaseException'',
      ''BaseExceptionGroup'', ''BlockingIOError'', ''BrokenPipeError'', ''BufferError'',
      ''BytesWarning'', ''ChildProcessError'', ''ConnectionAbortedError'', ''ConnectionError'',
      ''ConnectionRefusedError'', ''ConnectionResetError'', ''DeprecationWarning'', ''EOFError'',
      ''EncodingWarning'', ''EnvironmentError'', ''Exception'', ''ExceptionGroup'',
      ''FileExistsError'', ''FileNotFoundError'', ''FloatingPointError'', ''FutureWarning'',
      ''GeneratorExit'', ''IOError'', ''ImportError'', ''ImportWarning'', ''IndentationError'',
      ''IndexError'', ''InterruptedError'', ''IsADirectoryError'', ''KeyError'',
      ''KeyboardInterrupt'', ''LookupError'', ''MemoryError'', ''ModuleNotFoundError'',
      ''NameError'', ''NotADirectoryError'', ''NotImplementedError'', ''OSError'',
      ''OverflowError'', ''PendingDeprecationWarning'', ''PermissionError'',
      ''ProcessLookupError'', ''RecursionError'', ''ReferenceError'', ''ResourceWarning'',
      ''RuntimeError'', ''RuntimeWarning'', ''StopAsyncIteration'', ''StopIteration'',
      ''SyntaxError'', ''SyntaxWarning'', ''SystemError'', ''SystemExit'', ''TabError'',
      ''TimeoutError'', ''TypeError'', ''UnboundLocalError'', ''UnicodeDecodeError'',
      ''UnicodeEncodeError'', ''UnicodeError'', ''UnicodeTranslateError'', ''UnicodeWarning'',
      ''UserWarning'', ''ValueError'', ''Warning'', ''ZeroDivisionError'']"

definition module_globals :: namespace where
  "module_globals = map_of (map (\<lambda>n. (n, Opaque)) module_names)"

definition load_global :: "namespace \<Rightarrow> string \<Rightarrow> exc + gval" where
  "load_global ns n =
     (case ns n of
        Some v \<Rightarrow> Inr v
      | None \<Rightarrow> if n \<in> set builtin_names then Inr Opaque else Inl (NameError n))"

definition call_gval :: "gval \<Rightarrow> string option \<Rightarrow> exc + string" where
  "call_gval v x = (case v of StrFun g \<Rightarrow> g x | Opaque \<Rightarrow> Inl (TypeError ''not a function of the model''))"

text \<open>
  A local variable of \<open>main\<close> that no statement has assigned yet: reading it raises
  UnboundLocalError.
\<close>

definition load_fast :: "'a option \<Rightarrow> string \<Rightarrow> exc + 'a" where
  "load_fast v n = (case v of None \<Rightarrow> Inl (UnboundLocalError n) | Some x \<Rightarrow> Inr x)"

text \<open>\<open>args.tutorial or default\<close>.\<close>

definition or_default :: "string option \<Rightarrow> string \<Rightarrow> string" where
  "or_default a d = (case a of None \<Rightarrow> d | Some s \<Rightarrow> if s \<noteq> [] then s else d)"

text \<open>
  The branch \<^verbatim>\<open>if args.formula:\<close>. The keyword arguments of the call of
  \<open>render_html\<close> are evaluated in the order written; \<open>smiles\<close>, \<open>formula\<close>, \<open>mw\<close> and
  \<open>du\<close> are local variables of \<open>main\<close> that only the structure branch assigns, so here
  they are unassigned.
\<close>

definition formula_mode :: "('mol, 'w) rdkit \<Rightarrow> os_env \<Rightarrow> args \<Rightarrow> string option \<Rightarrow> path \<Rightarrow> fs \<Rightarrow> (exc + unit) \<times> fs" where
  "formula_mode lib env a title outdir =
     (let sdf = [];
          bullets =
            [''A single molecular formula can represent many isomers.'',
             ''Use degree of unsaturation (DU) to infer rings/double/triple bonds.'',
             ''Provide IUPAC name or SMILES to render a unique 3D structure.'']
      in bind_io (io_of (load_fast (None :: string option) ''smiles'')) (\<lambda>smiles_v.
         bind_io (io_of (load_fast (None :: string option) ''formula'')) (\<lambda>formula_v.
         bind_io (io_of (load_fast (None :: 'w option) ''mw'')) (\<lambda>mw_v.
         bind_io (io_of (load_fast (None :: pyfloat option) ''du'')) (\<lambda>du_v.
         bind_io (render_html lib env
                    \<lparr>p_title = title, p_smiles = smiles_v, p_formula = formula_v, p_mw = mw_v,
                     p_sdf = sdf, p_bullets = bullets, p_du = Some du_v,
                     p_tutorial_id = Some ''Tutorial 01'',
                     p_subtitle = or_default (arg_tutorial a)
                       ''Understanding Alkene and Alkyne Substitution Patterns''\<rparr> outdir) (\<lambda>u.
         write_text (path_join outdir ''README.txt'')
           ''Formula-only mode. Provide --name/--smiles to get 3D and facts.''))))))"

text \<open>
  The bullet list of the structure branch:
  \<^verbatim>\<open>bullets = make_bullets_from_name(args.name) if args.name else []\<close>,
  \<^verbatim>\<open>bullets = (bullets or []) + [f"Double-bond equivalents (DU): {du:.1f}"]\<close>.
\<close>

definition structure_bullets :: "string option \<Rightarrow> pyfloat \<Rightarrow> string list" where
  "structure_bullets name du =
     (let bullets = (if truthy name then make_bullets_from_name name else [])
      in (if bullets \<noteq> [] then bullets else []) @ [''Double-bond equivalents (DU): '' @ fmt_1f du])"

definition structure_mode :: "('mol, 'w) rdkit \<Rightarrow> os_env \<Rightarrow> args \<Rightarrow> string option \<Rightarrow> path \<Rightarrow> fs \<Rightarrow> (exc + unit) \<times> fs" where
  "structure_mode lib env a title outdir =
     bind_io (mol_from_any lib env (arg_name a) (arg_smiles a) (arg_inchi a)) (\<lambda>(mol, smiles_v).
     bind_io (io_of (compute_facts lib mol)) (\<lambda>(formula_v, mw_v, du_v).
     bind_io (make_artifacts lib mol outdir) (\<lambda>sdf.
     bind_io (render_html lib env
                \<lparr>p_title = title, p_smiles = smiles_v, p_formula = formula_v, p_mw = mw_v,
                 p_sdf = sdf, p_bullets = structure_bullets (arg_name a) du_v, p_du = None,
                 p_tutorial_id = None, p_subtitle = or_default (arg_tutorial a) []\<rparr> outdir) (\<lambda>u.
     (case make_script title formula_v (float_str lib mw_v) smiles_v du_v of
        (voiceover, srt) \<Rightarrow>
          bind_io (write_text (path_join outdir ''voiceover.txt'') voiceover) (\<lambda>u.
          bind_io (write_text (path_join outdir ''captions.srt'') srt) (\<lambda>u.
          bind_io (\<lambda>f. (read_text (TPL_YT env) f, f)) (\<lambda>source.
          bind_io (io_of (jinja_render lib source
                     [(''title'', jval_of_opt title), (''smiles'', JStr smiles_v),
                      (''formula'', JStr formula_v), (''mw'', JFloat mw_v)])) (\<lambda>yt.
          write_text (path_join outdir ''YOUTUBE_DESCRIPTION.md'') yt)))))))))"

text \<open>
  \<^verbatim>\<open>title = args.name or args.smiles or args.inchi or args.formula\<close>,
  \<^verbatim>\<open>outdir = ensure_out(Path(args.out) / slugify(title))\<close>, then one of the two
  branches. What \<open>main\<close> prints is left out.
\<close>

definition main :: "namespace \<Rightarrow> ('mol, 'w) rdkit \<Rightarrow> os_env \<Rightarrow> args \<Rightarrow> fs \<Rightarrow> (exc + unit) \<times> fs" where
  "main ns lib env a =
     (let title = py_or (arg_name a) (py_or (arg_smiles a) (py_or (arg_inchi a) (arg_formula a)))
      in bind_io (io_of (load_global ns ''slugify'')) (\<lambda>slugify.
         bind_io (io_of (call_gval slugify title)) (\<lambda>slug.
         bind_io (ensure_out (path_join (arg_out a) slug)) (\<lambda>outdir.
         if truthy (arg_formula a) then formula_mode lib env a title outdir
         else structure_mode lib env a title outdir))))"

text \<open>
  A test double for the chemistry library and the template engine, for concrete runs.
  It knows one molecule, ethanol: a molecule is a SMILES string with a flag for explicit
  hydrogens, and rendering a template gives the names of the keyword arguments.
\<close>

definition rdkit_double :: "(string \<times> bool, string) rdkit" where
  "rdkit_double =
     \<lparr>MolFromSmiles = (\<lambda>s. if s = ''CCO'' then Some (''CCO'', False) else None),
      MolFromInchi = (\<lambda>i. if i = ''InChI=1S/C2H6O/c1-2-3/h3H,2H2,1H3'' then Some (''CCO'', False) else None),
      AddHs = (\<lambda>m. (fst m, True)),
      MolToSmiles = (\<lambda>m. if snd m then ''[H]OC([H])([H])C([H])([H])[H]'' else fst m),
      CalcMolFormula = (\<lambda>m. ''C2H6O''),
      CalcExactMolWt = (\<lambda>m. ''46.041864811''),
      embed_minimize = (\<lambda>m. Inr m),
      MolToMolBlock = (\<lambda>m. ''molblock''),
      draw_png = (\<lambda>m. Inr ''png''),
      round4 = (\<lambda>w. take 7 w),
      float_str = (\<lambda>w. w),
      jinja_render = (\<lambda>source kwargs. Inr (concat (map fst kwargs)))\<rparr>"

text \<open>The two templates, for concrete runs with \<open>here = /app\<close>.\<close>

definition templates_double :: fs where
  "templates_double =
     [''/app/templates/page.html.j2'' \<mapsto> ''page'',
      ''/app/templates/youtube_desc.md.j2'' \<mapsto> ''description'']"

definition args_ethanol :: args where
  "args_ethanol =
     \<lparr>arg_name = Some ''ethanol'', arg_smiles = None, arg_inchi = None, arg_formula = None,
      arg_tutorial = None, arg_out = ''out''\<rparr>"

section \<open>Properties\<close>

subsection \<open>Rounding is exact below 53 bits\<close>

lemma round53_nat_small: "n < 2 ^ 53 \<Longrightarrow> round53_nat n = n"
  by (simp add: round53_nat_def excess_bits.simps)

lemma round53_small: "\<bar>k\<bar> < 9007199254740992 \<Longrightarrow> round53 k = k"
proof -
  assume b: "\<bar>k\<bar> < 9007199254740992"
  show ?thesis
  proof (cases "k < 0")
    case True
    with b have "nat (- k) < 2 ^ 53" by (simp add: nat_less_iff)
    then show ?thesis using True by (simp add: round53_def round53_nat_small)
  next
    case False
    with b have "nat k < 2 ^ 53" by (simp add: nat_less_iff)
    then show ?thesis using False by (simp add: round53_def round53_nat_small)
  qed
qed

lemma dbl_limit_big: "9007199254740992 < dbl_limit"
proof -
  have "(2::int) ^ 53 < 2 ^ 1024"
    by (rule power_strict_increasing) simp_all
  then show ?thesis by (simp add: dbl_limit_def)
qed

lemma formula_du_small:
  assumes "\<bar>nH + nX - nN\<bar> < 9007199254740992" and "\<bar>1 + nC\<bar> < 9007199254740992"
    and "\<bar>2 * (1 + nC) - (nH + nX - nN)\<bar> < 9007199254740992"
  shows "formula_du nC nH nN nX = Inr (Half (2 * (1 + nC) - (nH + nX - nN)))"
proof -
  note p = dbl_limit_big
  have r1: "round53 (nH + nX - nN) = nH + nX - nN"
    by (rule round53_small) (use assms(1) in simp)
  have r2: "round53 (1 + nC) = 1 + nC"
    by (rule round53_small) (use assms(2) in simp)
  have r3: "round53 (2 * (1 + nC) - (nH + nX - nN)) = 2 * (1 + nC) - (nH + nX - nN)"
    by (rule round53_small) (use assms(3) in simp)
  have "\<not> 2 * dbl_limit \<le> \<bar>nH + nX - nN\<bar>"
    using assms(1) p by linarith
  then have h: "int_truediv_2 (nH + nX - nN) = Inr (Half (nH + nX - nN))"
    unfolding int_truediv_2_def Let_def r1 by simp
  have "\<not> dbl_limit \<le> \<bar>1 + nC\<bar>"
    using assms(2) p by linarith
  then have x: "int_to_float (1 + nC) = Inr (Half (2 * (1 + nC)))"
    unfolding int_to_float_def Let_def r2 by simp
  have "\<not> 2 * dbl_limit \<le> 2 * (1 + nC) - (nH + nX - nN)"
    and "\<not> 2 * (1 + nC) - (nH + nX - nN) \<le> - (2 * dbl_limit)"
    using assms(3) p by linarith+
  then have d: "round_half (2 * (1 + nC) - (nH + nX - nN)) = Half (2 * (1 + nC) - (nH + nX - nN))"
    unfolding round_half_def Let_def r3 by simp
  show ?thesis
    unfolding formula_du_def Let_def h x
    by (simp only: float_sub.simps d sum.case)
qed
text \<open>
  C3, as amended. For counts of carbon, hydrogen, nitrogen and halogens that are
  non-negative and below \<open>2 ^ 51\<close>, \<open>formula_du\<close> returns the float whose value is
  exactly \<open>1 + C - (H + X - N) / 2\<close>, a multiple of one half and not truncated; for the
  counts of C2H6O it returns 0.
\<close>

theorem formula_du_exact:
  "(0 \<le> nC \<and> nC < 2 ^ 51 \<and> 0 \<le> nH \<and> nH < 2 ^ 51 \<and> 0 \<le> nN \<and> nN < 2 ^ 51 \<and> 0 \<le> nX \<and> nX < 2 ^ 51
     \<longrightarrow> (\<exists>d. formula_du nC nH nN nX = Inr d
            \<and> float_val d = Some (1 + of_int nC - of_int (nH + nX - nN) / 2)))
   \<and> formula_du 2 6 0 0 = Inr (Half 0)"
proof (intro conjI impI)
  assume a: "0 \<le> nC \<and> nC < 2 ^ 51 \<and> 0 \<le> nH \<and> nH < 2 ^ 51 \<and> 0 \<le> nN \<and> nN < 2 ^ 51 \<and> 0 \<le> nX \<and> nX < 2 ^ 51"
  have e: "(2::int) ^ 51 = 2251799813685248" by simp
  from a have b: "0 \<le> nC" "nC < 2251799813685248" "0 \<le> nH" "nH < 2251799813685248"
    "0 \<le> nN" "nN < 2251799813685248" "0 \<le> nX" "nX < 2251799813685248"
    unfolding e by simp_all
  have "- 9007199254740992 < nH + nX - nN" "nH + nX - nN < 9007199254740992"
    "- 9007199254740992 < 1 + nC" "1 + nC < 9007199254740992"
    "- 9007199254740992 < 2 * (1 + nC) - (nH + nX - nN)"
    "2 * (1 + nC) - (nH + nX - nN) < 9007199254740992"
    using b by presburger+
  then have "formula_du nC nH nN nX = Inr (Half (2 * (1 + nC) - (nH + nX - nN)))"
    by (intro formula_du_small) (simp_all add: abs_less_iff)
  moreover have "float_val (Half (2 * (1 + nC) - (nH + nX - nN)))
      = Some (1 + of_int nC - of_int (nH + nX - nN) / 2)"
    by (simp add: field_simps)
  ultimately show "\<exists>d. formula_du nC nH nN nX = Inr d
      \<and> float_val d = Some (1 + of_int nC - of_int (nH + nX - nN) / 2)"
    by blast
next
  show "formula_du 2 6 0 0 = Inr (Half 0)"
    by (rule trans [OF formula_du_small]) simp_all
qed

theorem formula_du_exact_witness:
  "formula_du 8 12 0 1 = Inr (Half 5) \<and> float_val (Half 5) = Some (5 / 2)"
proof -
  have "\<exists>d. formula_du 8 12 0 1 = Inr d \<and> float_val d = Some (1 + of_int 8 - of_int (12 + 1 - 0) / 2)"
    using formula_du_exact [of 8 12 0 1] by simp
  then obtain d where d: "formula_du 8 12 0 1 = Inr d" "float_val d = Some (5 / 2)"
    by auto
  then show ?thesis by (cases d) auto
qed

text \<open>
  C3 as stated fails for large counts: with \<open>2 ^ 53 + 1\<close> hydrogens and nothing else the
  exact value is \<open>1 - (2 ^ 53 + 1) / 2\<close>, and the division has already rounded the half
  away.
\<close>

theorem formula_du_exact_counterexample:
  "formula_du 0 (2 ^ 53 + 1) 0 0 = Inr (Half (2 - 2 ^ 53))
   \<and> float_val (Half (2 - 2 ^ 53)) \<noteq> Some (1 + of_int 0 - of_int (2 ^ 53 + 1 + 0 - 0) / 2)"
proof -
  have r: "round53 9007199254740993 = 9007199254740992" "round53 1 = 1"
    "round53 (- 9007199254740990) = - 9007199254740990"
    by (simp_all add: round53_def round53_nat_def excess_bits.simps Let_def)
  show ?thesis
    using dbl_limit_big
    by (simp add: formula_du_def int_truediv_2_def int_to_float_def round_half_def r Let_def)
qed

subsection \<open>Element counts\<close>

lemmas char_classes = is_upper_def is_lower_def is_digit_def is_space_def is_linebreak_def

lemma list_all_takeWhile: "list_all P (takeWhile P xs)"
  by (induction xs) simp_all

lemma findall_shape:
  "(symb, digs) \<in> set (findall f) \<Longrightarrow> is_symbol symb \<and> list_all is_digit digs"
proof (induction f rule: findall.induct)
  case 1
  then show ?case by (simp add: findall.simps)
next
  case (2 c cs)
  from "2.prems" show ?case
    unfolding findall.simps(2) [of c cs]
    using "2.IH" by (auto simp: is_symbol_def list_all_takeWhile split: if_splits list.splits)
qed

lemma dict_absent: "symb \<notin> fst ` set ms \<Longrightarrow> dict ms symb = None"
  by (simp add: dict_def map_of_eq_None_iff)

lemma dict_last:
  assumes "symb \<notin> fst ` set ms2"
  shows "dict (ms1 @ (symb, ds) # ms2) symb = Some ds"
proof -
  have "map_of (rev ms2) symb = None"
    using assms by (simp add: map_of_eq_None_iff)
  then show ?thesis
    by (simp add: dict_def map_add_def)
qed

lemma findall_C8H12Br: "findall ''C8H12Br'' = [(''C'', ''8''), (''H'', ''12''), (''Br'', [])]"
  by (simp add: char_classes findall.simps)

text \<open>
  C4. The matches of the pattern in \<open>C8H12Br\<close> are C with 8, H with 12 and Br with no
  digits, and the counts read from them are C = 8, H = 12, Br = 1 and 0 for N, F, Cl and
  I. In any formula string, every match is an element symbol (one upper-case letter,
  optionally one lower-case letter) with a string of digits; a symbol with no match
  counts 0; a symbol whose last match has no digits counts 1.
\<close>

theorem element_counts_C8H12Br:
  "findall ''C8H12Br'' = [(''C'', ''8''), (''H'', ''12''), (''Br'', [])]
   \<and> get (element_counts ''C8H12Br'') ''C'' = Inr 8
   \<and> get (element_counts ''C8H12Br'') ''H'' = Inr 12
   \<and> get (element_counts ''C8H12Br'') ''Br'' = Inr 1
   \<and> get (element_counts ''C8H12Br'') ''N'' = Inr 0
   \<and> get (element_counts ''C8H12Br'') ''F'' = Inr 0
   \<and> get (element_counts ''C8H12Br'') ''Cl'' = Inr 0
   \<and> get (element_counts ''C8H12Br'') ''I'' = Inr 0
   \<and> (\<forall>f symb digs. (symb, digs) \<in> set (findall f) \<longrightarrow> is_symbol symb \<and> list_all is_digit digs)
   \<and> (\<forall>f symb. symb \<notin> fst ` set (findall f) \<longrightarrow> get (element_counts f) symb = Inr 0)
   \<and> (\<forall>f symb ms1 ms2. findall f = ms1 @ (symb, []) # ms2 \<and> symb \<notin> fst ` set ms2
         \<longrightarrow> get (element_counts f) symb = Inr 1)"
proof (intro conjI allI impI)
  show "findall ''C8H12Br'' = [(''C'', ''8''), (''H'', ''12''), (''Br'', [])]"
    by (rule findall_C8H12Br)
  show "get (element_counts ''C8H12Br'') ''C'' = Inr 8"
    unfolding element_counts_def findall_C8H12Br
    by (simp add: dict_def get_def py_int_def digit_val_def is_digit_def)
  show "get (element_counts ''C8H12Br'') ''H'' = Inr 12"
    unfolding element_counts_def findall_C8H12Br
    by (simp add: dict_def get_def py_int_def digit_val_def is_digit_def)
  show "get (element_counts ''C8H12Br'') ''Br'' = Inr 1"
    unfolding element_counts_def findall_C8H12Br
    by (simp add: dict_def get_def)
  show "get (element_counts ''C8H12Br'') ''N'' = Inr 0"
    unfolding element_counts_def findall_C8H12Br
    by (simp add: dict_def get_def)
  show "get (element_counts ''C8H12Br'') ''F'' = Inr 0"
    unfolding element_counts_def findall_C8H12Br
    by (simp add: dict_def get_def)
  show "get (element_counts ''C8H12Br'') ''Cl'' = Inr 0"
    unfolding element_counts_def findall_C8H12Br
    by (simp add: dict_def get_def)
  show "get (element_counts ''C8H12Br'') ''I'' = Inr 0"
    unfolding element_counts_def findall_C8H12Br
    by (simp add: dict_def get_def)
next
  fix f symb digs
  assume "(symb, digs) \<in> set (findall f)"
  then show "is_symbol symb" and "list_all is_digit digs"
    by (simp_all add: findall_shape)
next
  fix f symb
  assume "symb \<notin> fst ` set (findall f)"
  then show "get (element_counts f) symb = Inr 0"
    by (simp add: element_counts_def dict_absent get_def)
next
  fix f symb ms1 ms2
  assume "findall f = ms1 @ (symb, []) # ms2 \<and> symb \<notin> fst ` set ms2"
  then show "get (element_counts f) symb = Inr 1"
    by (simp add: element_counts_def dict_last get_def)
qed

theorem element_counts_C8H12Br_witness:
  "(''Br'', []) \<in> set (findall ''C8H12Br'') \<and> is_symbol ''Br'' \<and> list_all is_digit []
   \<and> ''N'' \<notin> fst ` set (findall ''C8H12Br'') \<and> get (element_counts ''C8H12Br'') ''N'' = Inr 0
   \<and> findall ''C8H12Br'' = [(''C'', ''8''), (''H'', ''12'')] @ (''Br'', []) # []
   \<and> ''Br'' \<notin> fst ` set ([] :: (string \<times> string) list)
   \<and> get (element_counts ''C8H12Br'') ''Br'' = Inr 1"
proof -
  note t = element_counts_C8H12Br
  note c8 = t [THEN conjunct2, THEN conjunct2, THEN conjunct2, THEN conjunct2,
      THEN conjunct2, THEN conjunct2, THEN conjunct2, THEN conjunct2]
  have f: "findall ''C8H12Br'' = [(''C'', ''8''), (''H'', ''12'')] @ (''Br'', []) # []"
    using t [THEN conjunct1] by simp
  have m: "(''Br'', []) \<in> set (findall ''C8H12Br'')"
    unfolding f by simp
  have n: "''N'' \<notin> fst ` set (findall ''C8H12Br'')"
    unfolding f by simp
  have e: "''Br'' \<notin> fst ` set ([] :: (string \<times> string) list)"
    by simp
  have s1: "is_symbol ''Br'' \<and> list_all is_digit []"
    using c8 [THEN conjunct1, THEN spec, THEN spec, THEN spec, THEN mp, OF m] .
  have s2: "get (element_counts ''C8H12Br'') ''N'' = Inr 0"
    using c8 [THEN conjunct2, THEN conjunct1, THEN spec, THEN spec, THEN mp, OF n] .
  have s3: "get (element_counts ''C8H12Br'') ''Br'' = Inr 1"
    using c8 [THEN conjunct2, THEN conjunct2, THEN spec, THEN spec, THEN spec, THEN spec,
        THEN mp, OF conjI [OF f e]] .
  show ?thesis
    using m s1 [THEN conjunct1] s1 [THEN conjunct2] n s2 f e s3
    by (intro conjI) assumption+
qed

subsection \<open>The token that \<open>name_to_smiles\<close> extracts\<close>

lemma linebreak_is_space: "is_linebreak c \<Longrightarrow> is_space c"
  by (auto simp: is_linebreak_def is_space_def)

lemma takeWhile_append_none:
  "(\<forall>x\<in>set ys. \<not> P x) \<Longrightarrow> takeWhile P (xs @ ys) = takeWhile P xs"
proof (induction xs)
  case Nil
  then show ?case by (cases ys) simp_all
next
  case (Cons x xs)
  then show ?case by simp
qed

lemma takeWhile_takeWhile_weaker:
  "(\<And>x. P x \<Longrightarrow> Q x) \<Longrightarrow> takeWhile P (takeWhile Q xs) = takeWhile P xs"
  by (induction xs) auto

text \<open>What \<open>strip\<close> leaves is the text behind its leading white space, less a white tail.\<close>

lemma strip_decomp:
  "\<exists>t. dropWhile is_space s = strip s @ t \<and> (\<forall>x\<in>set t. is_space x)"
proof -
  define d where "d = dropWhile is_space s"
  have "rev (takeWhile is_space (rev d) @ dropWhile is_space (rev d)) = d"
    by (simp only: takeWhile_dropWhile_id rev_rev_ident)
  then have "rev (dropWhile is_space (rev d)) @ rev (takeWhile is_space (rev d)) = d"
    by (simp only: rev_append)
  then have "d = strip s @ rev (takeWhile is_space (rev d))"
    unfolding strip_def d_def by (rule sym)
  moreover have "\<forall>x\<in>set (rev (takeWhile is_space (rev d))). is_space x"
    by (auto dest: set_takeWhileD)
  ultimately show ?thesis unfolding d_def by blast
qed

lemma strip_Nil: "list_all is_space s \<Longrightarrow> strip s = []"
proof -
  assume "list_all is_space s"
  then have d: "dropWhile is_space s = []"
    by (induction s) simp_all
  show ?thesis unfolding strip_def d by simp
qed

lemma strip_Cons:
  assumes "\<not> list_all is_space s"
  shows "\<exists>c cs. strip s = c # cs \<and> \<not> is_space c
    \<and> takeWhile (\<lambda>x. \<not> is_space x) (strip s) = takeWhile (\<lambda>x. \<not> is_space x) (dropWhile is_space s)"
proof -
  obtain t where t: "dropWhile is_space s = strip s @ t" "\<forall>x\<in>set t. is_space x"
    using strip_decomp by blast
  from assms have ne: "dropWhile is_space s \<noteq> []"
    by (simp add: list_all_iff)
  then have h: "\<not> is_space (hd (dropWhile is_space s))"
    by (rule hd_dropWhile)
  have "strip s \<noteq> []"
  proof
    assume "strip s = []"
    with t(1) have "dropWhile is_space s = t" by simp
    with ne h t(2) show False by (cases t) auto
  qed
  then obtain c cs where c: "strip s = c # cs"
    by (cases "strip s") auto
  with t(1) h have "\<not> is_space c" by simp
  moreover have "takeWhile (\<lambda>x. \<not> is_space x) (dropWhile is_space s)
      = takeWhile (\<lambda>x. \<not> is_space x) (strip s)"
    unfolding t(1) by (rule takeWhile_append_none) (use t(2) in simp)
  ultimately show ?thesis using c by simp
qed

lemma splitlines_first:
  assumes "\<not> is_space c"
  shows "first_item (splitlines (c # cs)) = Inr (c # takeWhile (\<lambda>x. \<not> is_linebreak x) cs)"
proof -
  from assms have "\<not> is_linebreak c"
    using linebreak_is_space by blast
  then show ?thesis
    by (simp add: splitlines.simps first_item_def Let_def split: list.splits)
qed

lemma split_first:
  assumes "\<not> is_space c"
  shows "first_item (split (c # cs)) = Inr (c # takeWhile (\<lambda>x. \<not> is_space x) cs)"
  using assms by (subst split.simps) (simp add: first_item_def)

lemma extract_smiles_eq:
  "extract_smiles text =
     (if list_all is_space text then Inl (IndexError ''list index out of range'')
      else Inr (takeWhile (\<lambda>x. \<not> is_space x) (dropWhile is_space text)))"
proof (cases "list_all is_space text")
  case True
  then show ?thesis
    by (simp add: extract_smiles_def strip_Nil splitlines.simps first_item_def)
next
  case False
  then obtain c cs where c: "strip text = c # cs" "\<not> is_space c"
    and tw: "takeWhile (\<lambda>x. \<not> is_space x) (strip text)
      = takeWhile (\<lambda>x. \<not> is_space x) (dropWhile is_space text)"
    using strip_Cons by blast
  have "takeWhile (\<lambda>x. \<not> is_space x) (takeWhile (\<lambda>x. \<not> is_linebreak x) cs)
      = takeWhile (\<lambda>x. \<not> is_space x) cs"
    by (rule takeWhile_takeWhile_weaker) (use linebreak_is_space in blast)
  then have "extract_smiles text = Inr (c # takeWhile (\<lambda>x. \<not> is_space x) cs)"
    using c by (simp add: extract_smiles_def splitlines_first split_first)
  also have "c # takeWhile (\<lambda>x. \<not> is_space x) cs = takeWhile (\<lambda>x. \<not> is_space x) (strip text)"
    using c by simp
  finally show ?thesis using False tw by simp
qed

lemma extract_smiles_Inr:
  assumes "extract_smiles text = Inr smi"
  shows "smi \<noteq> [] \<and> \<not> list_ex is_space smi"
proof -
  from assms have ns: "\<not> list_all is_space text"
    and smi: "smi = takeWhile (\<lambda>x. \<not> is_space x) (dropWhile is_space text)"
    by (auto simp: extract_smiles_eq split: if_splits)
  from ns have ne: "dropWhile is_space text \<noteq> []"
    by (simp add: list_all_iff)
  then have "\<not> is_space (hd (dropWhile is_space text))"
    by (rule hd_dropWhile)
  with ne have "smi \<noteq> []"
    unfolding smi by (cases "dropWhile is_space text") auto
  moreover have "\<not> list_ex is_space smi"
    unfolding smi by (auto simp: list_ex_iff dest: set_takeWhileD)
  ultimately show ?thesis by simp
qed

lemma extract_smiles_not_empty_error:
  "extract_smiles text \<noteq> Inl (RuntimeError msg)"
  by (simp add: extract_smiles_eq)

lemma unlink_quiet_eq: "unlink_quiet p f = f(p := None)"
  by (auto simp: unlink_quiet_def unlink_def)
subsection \<open>\<open>name_to_smiles\<close>: what it returns and what it leaves behind\<close>

lemma name_to_smiles_cases:
  assumes "name_to_smiles env name f = (r, f')"
  shows "(\<exists>msg. r = Inl (OSError msg)) \<or> (\<exists>rc. r = Inl (CalledProcessError rc))
    \<or> (\<exists>resp. r = extract_smiles resp)"
  using assms
  unfolding name_to_smiles_def name_to_smiles_try_def check_call_def read_text_def Let_def
  by (auto split: option.splits prod.splits sum.splits proc_result.splits if_splits)

lemma name_to_smiles_exit0:
  assumes "mkstemp env ''opsin_in_'' f = Some in_path"
    and "mkstemp env ''opsin_out_'' (f(in_path \<mapsto> [])) = Some out_path"
    and "run_process env [''java'', ''-jar'', OPSIN env, ''-osmi'', in_path, out_path]
          (f(in_path \<mapsto> [], out_path \<mapsto> [], in_path \<mapsto> strip name @ [CHR 0x0A])) = (Exited 0, f2)"
    and "f2 out_path = Some resp"
  shows "fst (name_to_smiles env name f) = extract_smiles resp"
  using assms
  unfolding name_to_smiles_def name_to_smiles_try_def check_call_def read_text_def Let_def
  by simp

lemma name_to_smiles_unlinks:
  assumes "mkstemp env ''opsin_in_'' f = Some in_path"
    and "mkstemp env ''opsin_out_'' (f(in_path \<mapsto> [])) = Some out_path"
    and "name_to_smiles env name f = (r, f')"
  shows "f' in_path = None \<and> f' out_path = None"
  using assms
  unfolding name_to_smiles_def Let_def
  by (auto simp: unlink_quiet_eq split: prod.splits)

text \<open>
  C10. A value that \<open>name_to_smiles\<close> returns is a non-empty string without white
  space. It never raises the RuntimeError of its check for an empty token. When the
  process exits with status 0 and the response file holds \<open>resp\<close>, the outcome is an
  IndexError if \<open>resp\<close> is empty or all white space, and otherwise the first run of
  characters of \<open>resp\<close> that are not white space.
\<close>

theorem name_to_smiles_token:
  "(\<forall>smi f'. name_to_smiles env name f = (Inr smi, f') \<longrightarrow> smi \<noteq> [] \<and> \<not> list_ex is_space smi)
   \<and> fst (name_to_smiles env name f) \<noteq> Inl (RuntimeError ''OPSIN returned empty SMILES'')
   \<and> (\<forall>in_path out_path f2 resp.
        mkstemp env ''opsin_in_'' f = Some in_path
        \<and> mkstemp env ''opsin_out_'' (f(in_path \<mapsto> [])) = Some out_path
        \<and> run_process env [''java'', ''-jar'', OPSIN env, ''-osmi'', in_path, out_path]
            (f(in_path \<mapsto> [], out_path \<mapsto> [], in_path \<mapsto> strip name @ [CHR 0x0A])) = (Exited 0, f2)
        \<and> f2 out_path = Some resp
        \<longrightarrow> fst (name_to_smiles env name f) =
              (if list_all is_space resp then Inl (IndexError ''list index out of range'')
               else Inr (takeWhile (\<lambda>x. \<not> is_space x) (dropWhile is_space resp))))"
proof (intro conjI allI impI)
  fix smi f'
  assume a: "name_to_smiles env name f = (Inr smi, f')"
  from name_to_smiles_cases [OF a] obtain resp where "extract_smiles resp = Inr smi"
    by auto
  then have "smi \<noteq> [] \<and> \<not> list_ex is_space smi"
    by (rule extract_smiles_Inr)
  then show "smi \<noteq> []" and "\<not> list_ex is_space smi"
    by simp_all
next
  obtain r f' where a: "name_to_smiles env name f = (r, f')"
    by (cases "name_to_smiles env name f") auto
  have "r \<noteq> Inl (RuntimeError ''OPSIN returned empty SMILES'')"
  proof
    assume "r = Inl (RuntimeError ''OPSIN returned empty SMILES'')"
    with name_to_smiles_cases [OF a]
    obtain resp where "extract_smiles resp = Inl (RuntimeError ''OPSIN returned empty SMILES'')"
      by auto
    then show False
      by (simp add: extract_smiles_not_empty_error)
  qed
  then show "fst (name_to_smiles env name f) \<noteq> Inl (RuntimeError ''OPSIN returned empty SMILES'')"
    using a by simp
next
  fix in_path out_path f2 resp
  assume "mkstemp env ''opsin_in_'' f = Some in_path
        \<and> mkstemp env ''opsin_out_'' (f(in_path \<mapsto> [])) = Some out_path
        \<and> run_process env [''java'', ''-jar'', OPSIN env, ''-osmi'', in_path, out_path]
            (f(in_path \<mapsto> [], out_path \<mapsto> [], in_path \<mapsto> strip name @ [CHR 0x0A])) = (Exited 0, f2)
        \<and> f2 out_path = Some resp"
  then have h: "mkstemp env ''opsin_in_'' f = Some in_path"
    "mkstemp env ''opsin_out_'' (f(in_path \<mapsto> [])) = Some out_path"
    "run_process env [''java'', ''-jar'', OPSIN env, ''-osmi'', in_path, out_path]
        (f(in_path \<mapsto> [], out_path \<mapsto> [], in_path \<mapsto> strip name @ [CHR 0x0A])) = (Exited 0, f2)"
    "f2 out_path = Some resp"
    by blast+
  have "fst (name_to_smiles env name f) = extract_smiles resp"
    by (rule name_to_smiles_exit0 [OF h])
  then show "fst (name_to_smiles env name f) =
              (if list_all is_space resp then Inl (IndexError ''list index out of range'')
               else Inr (takeWhile (\<lambda>x. \<not> is_space x) (dropWhile is_space resp)))"
    by (simp only: extract_smiles_eq)
qed
lemma opsin_double_run:
  "name_to_smiles (opsin_double resp rc) name Map.empty =
     ((if rc \<noteq> 0 then Inl (CalledProcessError rc) else extract_smiles resp),
      (if rc \<noteq> 0 then Map.empty
       else (Map.empty(''/tmp/opsin_in_0'' \<mapsto> strip name @ [CHR 0x0A], ''/tmp/opsin_out_0'' \<mapsto> resp))
              (''/tmp/opsin_in_0'' := None, ''/tmp/opsin_out_0'' := None)))"
  unfolding name_to_smiles_def name_to_smiles_try_def check_call_def read_text_def Let_def
    opsin_double_def tmp_names_def unlink_quiet_eq
  by (auto simp: fun_eq_iff)

theorem name_to_smiles_token_witness:
  "name_to_smiles (opsin_double (''CCO'' @ [CHR 0x09] @ ''ethanol'' @ [CHR 0x0A]) 0) ''ethanol'' Map.empty
     = (Inr ''CCO'', snd (name_to_smiles (opsin_double (''CCO'' @ [CHR 0x09] @ ''ethanol'' @ [CHR 0x0A]) 0) ''ethanol'' Map.empty))
   \<and> ''CCO'' \<noteq> [] \<and> \<not> list_ex is_space ''CCO''
   \<and> mkstemp (opsin_double [CHR 0x20, CHR 0x0A] 0) ''opsin_in_'' Map.empty = Some ''/tmp/opsin_in_0''
   \<and> mkstemp (opsin_double [CHR 0x20, CHR 0x0A] 0) ''opsin_out_'' (Map.empty(''/tmp/opsin_in_0'' \<mapsto> []))
       = Some ''/tmp/opsin_out_0''
   \<and> list_all is_space [CHR 0x20, CHR 0x0A]
   \<and> fst (name_to_smiles (opsin_double [CHR 0x20, CHR 0x0A] 0) ''ethanol'' Map.empty)
       = Inl (IndexError ''list index out of range'')"
proof -
  let ?ok = "opsin_double (''CCO'' @ [CHR 0x09] @ ''ethanol'' @ [CHR 0x0A]) 0"
  let ?blank = "opsin_double [CHR 0x20, CHR 0x0A] 0"
  let ?in = "''/tmp/opsin_in_0''" and ?out = "''/tmp/opsin_out_0''"
  let ?f1 = "Map.empty(?in \<mapsto> [], ?out \<mapsto> [], ?in \<mapsto> strip ''ethanol'' @ [CHR 0x0A])"
  have run: "name_to_smiles ?ok ''ethanol'' Map.empty
      = (Inr ''CCO'', snd (name_to_smiles ?ok ''ethanol'' Map.empty))"
    by (simp add: opsin_double_run extract_smiles_eq is_space_def)
  have tok: "''CCO'' \<noteq> [] \<and> \<not> list_ex is_space ''CCO''"
    using name_to_smiles_token [of ?ok "''ethanol''" Map.empty, THEN conjunct1, THEN spec, THEN spec, THEN mp, OF run] .
  have m1: "mkstemp ?blank ''opsin_in_'' Map.empty = Some ?in"
    by (simp add: opsin_double_def tmp_names_def)
  have m2: "mkstemp ?blank ''opsin_out_'' (Map.empty(?in \<mapsto> [])) = Some ?out"
    by (simp add: opsin_double_def tmp_names_def)
  have p: "run_process ?blank [''java'', ''-jar'', OPSIN ?blank, ''-osmi'', ?in, ?out] ?f1
      = (Exited 0, ?f1(?out \<mapsto> [CHR 0x20, CHR 0x0A]))"
    by (simp add: opsin_double_def)
  have r: "(?f1(?out \<mapsto> [CHR 0x20, CHR 0x0A])) ?out = Some [CHR 0x20, CHR 0x0A]"
    by simp
  have sp: "list_all is_space [CHR 0x20, CHR 0x0A]"
    by (simp add: is_space_def)
  have "fst (name_to_smiles ?blank ''ethanol'' Map.empty) =
      (if list_all is_space [CHR 0x20, CHR 0x0A] then Inl (IndexError ''list index out of range'')
       else Inr (takeWhile (\<lambda>x. \<not> is_space x) (dropWhile is_space [CHR 0x20, CHR 0x0A])))"
    using name_to_smiles_token [of ?blank "''ethanol''" Map.empty, THEN conjunct2, THEN conjunct2,
        THEN spec, THEN spec, THEN spec, THEN spec, THEN mp, OF conjI [OF m1 conjI [OF m2 conjI [OF p r]]]] .
  then have ie: "fst (name_to_smiles ?blank ''ethanol'' Map.empty)
      = Inl (IndexError ''list index out of range'')"
    using sp by (simp only: if_True)
  show ?thesis
    using run tok [THEN conjunct1] tok [THEN conjunct2] m1 m2 sp ie
    by (intro conjI) assumption+
qed

text \<open>
  C6. Once the two temporary files have been made, \<open>name_to_smiles\<close> leaves neither of
  them behind, whatever its outcome \<open>r\<close> is: a value, the CalledProcessError of a non-zero
  exit status, or any other exception.
\<close>

theorem name_to_smiles_cleanup:
  "mkstemp env ''opsin_in_'' f = Some in_path
   \<and> mkstemp env ''opsin_out_'' (f(in_path \<mapsto> [])) = Some out_path
   \<and> name_to_smiles env name f = (r, f')
   \<longrightarrow> f' in_path = None \<and> f' out_path = None"
  using name_to_smiles_unlinks by blast

theorem name_to_smiles_cleanup_witness:
  "name_to_smiles (opsin_double ''CCO'' 0) ''ethanol'' (Map.empty(''keep'' \<mapsto> ''x''))
     = (Inr ''CCO'', snd (name_to_smiles (opsin_double ''CCO'' 0) ''ethanol'' (Map.empty(''keep'' \<mapsto> ''x''))))
   \<and> snd (name_to_smiles (opsin_double ''CCO'' 0) ''ethanol'' (Map.empty(''keep'' \<mapsto> ''x''))) ''/tmp/opsin_in_0'' = None
   \<and> snd (name_to_smiles (opsin_double ''CCO'' 0) ''ethanol'' (Map.empty(''keep'' \<mapsto> ''x''))) ''/tmp/opsin_out_0'' = None
   \<and> name_to_smiles (opsin_double ''CCO'' 1) ''ethanol'' (Map.empty(''keep'' \<mapsto> ''x''))
     = (Inl (CalledProcessError 1), snd (name_to_smiles (opsin_double ''CCO'' 1) ''ethanol'' (Map.empty(''keep'' \<mapsto> ''x''))))
   \<and> snd (name_to_smiles (opsin_double ''CCO'' 1) ''ethanol'' (Map.empty(''keep'' \<mapsto> ''x''))) ''/tmp/opsin_in_0'' = None
   \<and> snd (name_to_smiles (opsin_double ''CCO'' 1) ''ethanol'' (Map.empty(''keep'' \<mapsto> ''x''))) ''/tmp/opsin_out_0'' = None
   \<and> name_to_smiles (opsin_double [] 0) ''ethanol'' (Map.empty(''keep'' \<mapsto> ''x''))
     = (Inl (IndexError ''list index out of range''),
        snd (name_to_smiles (opsin_double [] 0) ''ethanol'' (Map.empty(''keep'' \<mapsto> ''x''))))
   \<and> snd (name_to_smiles (opsin_double [] 0) ''ethanol'' (Map.empty(''keep'' \<mapsto> ''x''))) ''/tmp/opsin_in_0'' = None
   \<and> snd (name_to_smiles (opsin_double [] 0) ''ethanol'' (Map.empty(''keep'' \<mapsto> ''x''))) ''/tmp/opsin_out_0'' = None"
proof -
  let ?f = "Map.empty(''keep'' \<mapsto> ''x'')"
  let ?in = "''/tmp/opsin_in_0''" and ?out = "''/tmp/opsin_out_0''"
  have m1: "mkstemp (opsin_double resp rc) ''opsin_in_'' ?f = Some ?in" for resp rc
    by (simp add: opsin_double_def tmp_names_def)
  have m2: "mkstemp (opsin_double resp rc) ''opsin_out_'' (?f(?in \<mapsto> [])) = Some ?out" for resp rc
    by (simp add: opsin_double_def tmp_names_def)
  have fst_run: "fst (name_to_smiles (opsin_double resp rc) ''ethanol'' ?f)
      = (if rc \<noteq> 0 then Inl (CalledProcessError rc) else extract_smiles resp)" for resp rc
    unfolding name_to_smiles_def name_to_smiles_try_def check_call_def read_text_def Let_def
      opsin_double_def tmp_names_def
    by simp
  have a: "name_to_smiles (opsin_double ''CCO'' 0) ''ethanol'' ?f
      = (Inr ''CCO'', snd (name_to_smiles (opsin_double ''CCO'' 0) ''ethanol'' ?f))"
    by (rule prod_eqI) (simp_all add: fst_run extract_smiles_eq is_space_def)
  have b: "name_to_smiles (opsin_double ''CCO'' 1) ''ethanol'' ?f
      = (Inl (CalledProcessError 1), snd (name_to_smiles (opsin_double ''CCO'' 1) ''ethanol'' ?f))"
    by (rule prod_eqI) (simp_all add: fst_run)
  have c: "name_to_smiles (opsin_double [] 0) ''ethanol'' ?f
      = (Inl (IndexError ''list index out of range''), snd (name_to_smiles (opsin_double [] 0) ''ethanol'' ?f))"
    by (rule prod_eqI) (simp_all add: fst_run extract_smiles_eq)
  note ra = name_to_smiles_cleanup [THEN mp, OF conjI [OF m1 conjI [OF m2 a]]]
  note rb = name_to_smiles_cleanup [THEN mp, OF conjI [OF m1 conjI [OF m2 b]]]
  note rc = name_to_smiles_cleanup [THEN mp, OF conjI [OF m1 conjI [OF m2 c]]]
  show ?thesis
    using a ra [THEN conjunct1] ra [THEN conjunct2] b rb [THEN conjunct1] rb [THEN conjunct2]
      c rc [THEN conjunct1] rc [THEN conjunct2]
    by (intro conjI) assumption+
qed

text \<open>
  The run behind C5: the process exits with status 0 and leaves the response file
  empty, or with white space only. The outcome is the IndexError of the indexing, not
  the RuntimeError of the check that follows it.
\<close>

theorem name_to_smiles_empty_response:
  "fst (name_to_smiles (opsin_double [] 0) ''ethanol'' Map.empty)
     = Inl (IndexError ''list index out of range'')
   \<and> fst (name_to_smiles (opsin_double [CHR 0x20, CHR 0x0A] 0) ''ethanol'' Map.empty)
     = Inl (IndexError ''list index out of range'')
   \<and> fst (name_to_smiles (opsin_double [] 0) ''ethanol'' Map.empty)
     \<noteq> Inl (RuntimeError ''OPSIN returned empty SMILES'')"
  by (simp add: opsin_double_run extract_smiles_eq is_space_def)

subsection \<open>Captions\<close>

lemma srt_timestamps:
  "srt_timestamp 0 = ''00:00:00,000''" "srt_timestamp 3000 = ''00:00:03,000''"
  "srt_timestamp 6000 = ''00:00:06,000''" "srt_timestamp 9000 = ''00:00:09,000''"
  "srt_timestamp 12000 = ''00:00:12,000''"
  by (simp_all add: srt_timestamp_def fmt_02d_def fmt_03d_def str_nat.simps digit_char_def)

lemma fmt_02d_values:
  "fmt_02d 0 = ''00''" "fmt_02d 3 = ''03''" "fmt_02d 6 = ''06''" "fmt_02d 9 = ''09''"
  "fmt_02d 12 = ''12''"
  by (simp_all add: fmt_02d_def str_nat.simps digit_char_def)

lemma Suc4_eq_4: "Suc (Suc (Suc (Suc 0))) = 4"
  by simp

lemma srt_loop_four:
  "srt_loop 1 0 [l1, l2, l3, l4] =
     [srt_block 1 0 3000 l1, srt_block 2 3000 6000 l2, srt_block 3 6000 9000 l3,
      srt_block 4 9000 12000 l4]"
  by (simp add: srt_block_def srt_timestamps fmt_02d_values Suc4_eq_4
      numeral_2_eq_2 [symmetric] numeral_3_eq_3 [symmetric])

text \<open>
  C7. The narration has four lines, and the caption text that \<open>make_script\<close> returns is
  four blocks joined by a newline: block \<open>i\<close> carries the number \<open>i\<close>, the time stamps
  of \<open>3 * (i - 1)\<close> and \<open>3 * i\<close> seconds in the form hours:minutes:seconds,milliseconds,
  and the \<open>i\<close>-th narration line. Each block starts where the one before it ends, and
  the first starts at \<open>00:00:00,000\<close>.
\<close>

theorem make_script_captions:
  "make_script title formula_s mw_str smiles_s du =
     (join [CHR 0x0A] (narration title formula_s mw_str smiles_s du),
      join [CHR 0x0A]
        [srt_block 1 0 3000 (narration title formula_s mw_str smiles_s du ! 0),
         srt_block 2 3000 6000 (narration title formula_s mw_str smiles_s du ! 1),
         srt_block 3 6000 9000 (narration title formula_s mw_str smiles_s du ! 2),
         srt_block 4 9000 12000 (narration title formula_s mw_str smiles_s du ! 3)])
   \<and> length (narration title formula_s mw_str smiles_s du) = 4
   \<and> srt_timestamp 0 = ''00:00:00,000''"
proof -
  obtain l1 l2 l3 l4 where n: "narration title formula_s mw_str smiles_s du = [l1, l2, l3, l4]"
    by (simp add: narration_def)
  show ?thesis
    unfolding make_script_def Let_def n srt_loop_four
    by (simp add: srt_timestamps)
qed

subsection \<open>\<open>main\<close> and the name \<open>slugify\<close>\<close>

lemma slugify_unbound: "load_global module_globals ''slugify'' = Inl (NameError ''slugify'')"
  by (simp add: load_global_def module_globals_def module_names_def builtin_names_def)

lemma main_module_globals: "main module_globals lib env a f = (Inl (NameError ''slugify''), f)"
  by (simp add: main_def Let_def bind_io_def io_of_def slugify_unbound)

lemma formula_mode_unbound:
  "formula_mode lib env a title outdir f = (Inl (UnboundLocalError ''smiles''), f)"
  by (simp add: formula_mode_def Let_def bind_io_def io_of_def load_fast_def)

text \<open>
  C2. In the namespace the module builds, \<open>slugify\<close> is bound neither by the module nor
  as a builtin. Whatever the arguments, the library, the environment and the files,
  \<open>main\<close> raises NameError for \<open>slugify\<close> and leaves the file system as it was.
\<close>

theorem main_raises_NameError:
  "''slugify'' \<notin> set module_names \<and> ''slugify'' \<notin> set builtin_names
   \<and> main module_globals lib env a f = (Inl (NameError ''slugify''), f)"
  by (simp add: main_module_globals) (simp add: module_names_def builtin_names_def)

text \<open>
  The run behind C1: formula-only mode with \<open>C8H12Br\<close>, on an empty file system. \<open>main\<close>
  raises NameError and no file is written, \<open>README.txt\<close> included. The branch for the
  formula-only mode, entered with any title and output directory, raises
  UnboundLocalError for \<open>smiles\<close> before it writes anything.
\<close>

theorem main_formula_mode_no_readme:
  "main module_globals lib env
      \<lparr>arg_name = None, arg_smiles = None, arg_inchi = None, arg_formula = Some ''C8H12Br'',
       arg_tutorial = None, arg_out = ''out''\<rparr> Map.empty
     = (Inl (NameError ''slugify''), Map.empty)
   \<and> formula_mode lib env a title outdir f = (Inl (UnboundLocalError ''smiles''), f)"
  by (simp add: main_module_globals formula_mode_unbound)

subsection \<open>\<open>mol_from_any\<close>\<close>

lemma name_to_smiles_nonempty:
  "name_to_smiles env n f = (Inr s, f') \<Longrightarrow> s \<noteq> []"
proof -
  assume a: "name_to_smiles env n f = (Inr s, f')"
  from name_to_smiles_cases [OF a] obtain resp where "extract_smiles resp = Inr s"
    by auto
  then show ?thesis
    using extract_smiles_Inr by blast
qed

lemma mol_from_any_smiles:
  assumes "s \<noteq> []"
  shows "mol_from_any lib env None (Some s) None f =
    ((case MolFromSmiles lib s of
        None \<Rightarrow> Inl (ValueError ''Could not parse structure from input.'')
      | Some m \<Rightarrow> Inr (AddHs lib m, s)), f)"
  using assms
  by (simp add: mol_from_any_def smiles_of_name_def parse_structure_def bind_io_def io_of_def
      io_return_def Let_def split: option.splits)

lemma mol_from_any_inchi:
  assumes "i \<noteq> []"
  shows "mol_from_any lib env None None (Some i) f =
    ((case MolFromInchi lib i of
        None \<Rightarrow> Inl (ValueError ''Could not parse structure from input.'')
      | Some m \<Rightarrow> Inr (AddHs lib m, MolToSmiles lib (AddHs lib m))), f)"
  using assms
  by (simp add: mol_from_any_def smiles_of_name_def parse_structure_def bind_io_def io_of_def
      io_return_def Let_def split: option.splits)

lemma mol_from_any_name:
  assumes "n \<noteq> []"
  shows "mol_from_any lib env (Some n) None None f =
    (case name_to_smiles env n f of
       (Inl e, f') \<Rightarrow> (Inl e, f')
     | (Inr s, f') \<Rightarrow>
         ((case MolFromSmiles lib s of
             None \<Rightarrow> Inl (ValueError ''Could not parse structure from input.'')
           | Some m \<Rightarrow> Inr (AddHs lib m, s)), f'))"
proof (cases "name_to_smiles env n f")
  case (Pair r f')
  show ?thesis
  proof (cases r)
    case (Inl e)
    with Pair assms show ?thesis
      by (simp add: mol_from_any_def smiles_of_name_def bind_io_def)
  next
    case (Inr s)
    with Pair have "s \<noteq> []"
      by (simp add: name_to_smiles_nonempty)
    with Pair Inr assms show ?thesis
      by (simp add: mol_from_any_def smiles_of_name_def parse_structure_def bind_io_def io_of_def
          io_return_def Let_def split: option.splits)
  qed
qed

text \<open>
  C8. Given a non-empty SMILES string alone, \<open>mol_from_any\<close> parses it as SMILES and
  returns that very string; given a non-empty name alone, it parses the string that
  \<open>name_to_smiles\<close> returns and returns that very string; given a non-empty InChI
  string alone, it parses it as InChI and returns \<open>MolToSmiles\<close> of the molecule. In
  each case the molecule returned is \<open>AddHs\<close> of the parsed one, and a string that does
  not parse raises the ValueError \<open>Could not parse structure from input.\<close>
\<close>

theorem mol_from_any_result:
  "(s \<noteq> [] \<longrightarrow>
      mol_from_any lib env None (Some s) None f =
        ((case MolFromSmiles lib s of
            None \<Rightarrow> Inl (ValueError ''Could not parse structure from input.'')
          | Some m \<Rightarrow> Inr (AddHs lib m, s)), f))
   \<and> (n \<noteq> [] \<longrightarrow>
      mol_from_any lib env (Some n) None None f =
        (case name_to_smiles env n f of
           (Inl e, f') \<Rightarrow> (Inl e, f')
         | (Inr s', f') \<Rightarrow>
             ((case MolFromSmiles lib s' of
                 None \<Rightarrow> Inl (ValueError ''Could not parse structure from input.'')
               | Some m \<Rightarrow> Inr (AddHs lib m, s')), f')))
   \<and> (i \<noteq> [] \<longrightarrow>
      mol_from_any lib env None None (Some i) f =
        ((case MolFromInchi lib i of
            None \<Rightarrow> Inl (ValueError ''Could not parse structure from input.'')
          | Some m \<Rightarrow> Inr (AddHs lib m, MolToSmiles lib (AddHs lib m))), f))"
proof (intro conjI impI)
  assume "s \<noteq> []"
  then show "mol_from_any lib env None (Some s) None f =
        ((case MolFromSmiles lib s of
            None \<Rightarrow> Inl (ValueError ''Could not parse structure from input.'')
          | Some m \<Rightarrow> Inr (AddHs lib m, s)), f)"
    by (rule mol_from_any_smiles)
next
  assume "n \<noteq> []"
  then show "mol_from_any lib env (Some n) None None f =
        (case name_to_smiles env n f of
           (Inl e, f') \<Rightarrow> (Inl e, f')
         | (Inr s', f') \<Rightarrow>
             ((case MolFromSmiles lib s' of
                 None \<Rightarrow> Inl (ValueError ''Could not parse structure from input.'')
               | Some m \<Rightarrow> Inr (AddHs lib m, s')), f'))"
    by (rule mol_from_any_name)
next
  assume "i \<noteq> []"
  then show "mol_from_any lib env None None (Some i) f =
        ((case MolFromInchi lib i of
            None \<Rightarrow> Inl (ValueError ''Could not parse structure from input.'')
          | Some m \<Rightarrow> Inr (AddHs lib m, MolToSmiles lib (AddHs lib m))), f)"
    by (rule mol_from_any_inchi)
qed

theorem mol_from_any_result_witness:
  "''CCO'' \<noteq> []
   \<and> mol_from_any rdkit_double (opsin_double [] 0) None (Some ''CCO'') None Map.empty
       = (Inr ((''CCO'', True), ''CCO''), Map.empty)
   \<and> mol_from_any rdkit_double (opsin_double [] 0) None (Some ''C(C'') None Map.empty
       = (Inl (ValueError ''Could not parse structure from input.''), Map.empty)
   \<and> ''ethanol'' \<noteq> []
   \<and> fst (mol_from_any rdkit_double (opsin_double ''CCO'' 0) (Some ''ethanol'') None None Map.empty)
       = Inr ((''CCO'', True), ''CCO'')
   \<and> ''InChI=1S/C2H6O/c1-2-3/h3H,2H2,1H3'' \<noteq> []
   \<and> mol_from_any rdkit_double (opsin_double [] 0) None None
         (Some ''InChI=1S/C2H6O/c1-2-3/h3H,2H2,1H3'') Map.empty
       = (Inr ((''CCO'', True), ''[H]OC([H])([H])C([H])([H])[H]''), Map.empty)"
proof -
  have ne: "''CCO'' \<noteq> []" "''C(C'' \<noteq> []" "''ethanol'' \<noteq> []"
    "''InChI=1S/C2H6O/c1-2-3/h3H,2H2,1H3'' \<noteq> []"
    by simp_all
  have a: "mol_from_any rdkit_double (opsin_double [] 0) None (Some ''CCO'') None Map.empty
       = (Inr ((''CCO'', True), ''CCO''), Map.empty)"
    using mol_from_any_result [where s = "''CCO''" and lib = rdkit_double
        and env = "opsin_double [] 0" and f = Map.empty, THEN conjunct1, THEN mp, OF ne(1)]
    by (simp add: rdkit_double_def)
  have b: "mol_from_any rdkit_double (opsin_double [] 0) None (Some ''C(C'') None Map.empty
       = (Inl (ValueError ''Could not parse structure from input.''), Map.empty)"
    using mol_from_any_result [where s = "''C(C''" and lib = rdkit_double
        and env = "opsin_double [] 0" and f = Map.empty, THEN conjunct1, THEN mp, OF ne(2)]
    by (simp add: rdkit_double_def)
  have run: "name_to_smiles (opsin_double ''CCO'' 0) ''ethanol'' Map.empty
      = (Inr ''CCO'', snd (name_to_smiles (opsin_double ''CCO'' 0) ''ethanol'' Map.empty))"
    by (simp add: opsin_double_run extract_smiles_eq is_space_def)
  have c: "fst (mol_from_any rdkit_double (opsin_double ''CCO'' 0) (Some ''ethanol'') None None Map.empty)
       = Inr ((''CCO'', True), ''CCO'')"
    using mol_from_any_result [where n = "''ethanol''" and lib = rdkit_double
        and env = "opsin_double ''CCO'' 0" and f = Map.empty, THEN conjunct2, THEN conjunct1,
        THEN mp, OF ne(3)]
    by (subst (asm) run) (simp add: rdkit_double_def)
  have d: "mol_from_any rdkit_double (opsin_double [] 0) None None
         (Some ''InChI=1S/C2H6O/c1-2-3/h3H,2H2,1H3'') Map.empty
       = (Inr ((''CCO'', True), ''[H]OC([H])([H])C([H])([H])[H]''), Map.empty)"
    using mol_from_any_result [where i = "''InChI=1S/C2H6O/c1-2-3/h3H,2H2,1H3''"
        and lib = rdkit_double and env = "opsin_double [] 0" and f = Map.empty,
        THEN conjunct2, THEN conjunct2, THEN mp, OF ne(4)]
    by (simp add: rdkit_double_def)
  show ?thesis
    using ne(1) a b ne(3) c ne(4) d
    by (intro conjI) assumption+
qed

subsection \<open>The bullet list of the structure branch\<close>

lemma bind_io_InrD:
  "bind_io m k f = (Inr y, f') \<Longrightarrow> \<exists>x f1. m f = (Inr x, f1) \<and> k x f1 = (Inr y, f')"
  by (auto simp: bind_io_def split: prod.splits sum.splits)

lemma render_html_InrD:
  assumes "render_html lib env p outdir f = (Inr u, f')"
  shows "\<exists>source html. jinja_render lib source (page_kwargs p) = Inr html
    \<and> f' = f(path_join outdir ''index.html'' \<mapsto> html)"
  using assms
  by (auto simp: render_html_def bind_io_def io_of_def write_text_def
      split: prod.splits sum.splits)

lemma structure_bullets_eq:
  "structure_bullets name du =
     (if truthy name then make_bullets_from_name name else [])
       @ [''Double-bond equivalents (DU): '' @ fmt_1f du]"
  by (simp add: structure_bullets_def Let_def)

lemma after_render_keeps_index:
  assumes "(case make_script title formula_v mw_s smiles_v du_v of
        (voiceover, srt) \<Rightarrow>
          bind_io (write_text (path_join outdir ''voiceover.txt'') voiceover) (\<lambda>u.
          bind_io (write_text (path_join outdir ''captions.srt'') srt) (\<lambda>u.
          bind_io (\<lambda>f. (read_text tpl f, f)) (\<lambda>source.
          bind_io (io_of (jinja_render lib source kwargs)) (\<lambda>yt.
          write_text (path_join outdir ''YOUTUBE_DESCRIPTION.md'') yt))))) f4 = (Inr u, f')"
  shows "f' (path_join outdir ''index.html'') = f4 (path_join outdir ''index.html'')"
  using assms
  by (auto simp: bind_io_def io_of_def write_text_def path_join_def
      split: prod.splits sum.splits)

lemma structure_mode_InrD:
  assumes "structure_mode lib env a title outdir f = (Inr (), f')"
  shows "\<exists>mol smiles_v formula_v mw_v du_v sdf source html.
      compute_facts lib mol = Inr (formula_v, mw_v, du_v)
    \<and> jinja_render lib source (page_kwargs
          \<lparr>p_title = title, p_smiles = smiles_v, p_formula = formula_v, p_mw = mw_v,
           p_sdf = sdf, p_bullets = structure_bullets (arg_name a) du_v, p_du = None,
           p_tutorial_id = None, p_subtitle = or_default (arg_tutorial a) []\<rparr>) = Inr html
    \<and> f' (path_join outdir ''index.html'') = Some html"
proof -
  from assms obtain ms f1 where
      s1: "mol_from_any lib env (arg_name a) (arg_smiles a) (arg_inchi a) f = (Inr ms, f1)"
    and r1: "(case ms of (mol, smiles_v) \<Rightarrow>
       bind_io (io_of (compute_facts lib mol)) (\<lambda>(formula_v, mw_v, du_v).
       bind_io (make_artifacts lib mol outdir) (\<lambda>sdf.
       bind_io (render_html lib env
                \<lparr>p_title = title, p_smiles = smiles_v, p_formula = formula_v, p_mw = mw_v,
                 p_sdf = sdf, p_bullets = structure_bullets (arg_name a) du_v, p_du = None,
                 p_tutorial_id = None, p_subtitle = or_default (arg_tutorial a) []\<rparr> outdir) (\<lambda>u.
       (case make_script title formula_v (float_str lib mw_v) smiles_v du_v of
          (voiceover, srt) \<Rightarrow>
            bind_io (write_text (path_join outdir ''voiceover.txt'') voiceover) (\<lambda>u.
            bind_io (write_text (path_join outdir ''captions.srt'') srt) (\<lambda>u.
            bind_io (\<lambda>f. (read_text (TPL_YT env) f, f)) (\<lambda>source.
            bind_io (io_of (jinja_render lib source
                       [(''title'', jval_of_opt title), (''smiles'', JStr smiles_v),
                        (''formula'', JStr formula_v), (''mw'', JFloat mw_v)])) (\<lambda>yt.
            write_text (path_join outdir ''YOUTUBE_DESCRIPTION.md'') yt))))))))) f1 = (Inr (), f')"
    unfolding structure_mode_def by (drule_tac bind_io_InrD) blast
  obtain mol smiles_v where ms: "ms = (mol, smiles_v)"
    by (cases ms) auto
  from r1 [unfolded ms prod.case] obtain facts f2 where
      s2: "io_of (compute_facts lib mol) f1 = (Inr facts, f2)"
    and r2: "(case facts of (formula_v, mw_v, du_v) \<Rightarrow>
       bind_io (make_artifacts lib mol outdir) (\<lambda>sdf.
       bind_io (render_html lib env
                \<lparr>p_title = title, p_smiles = smiles_v, p_formula = formula_v, p_mw = mw_v,
                 p_sdf = sdf, p_bullets = structure_bullets (arg_name a) du_v, p_du = None,
                 p_tutorial_id = None, p_subtitle = or_default (arg_tutorial a) []\<rparr> outdir) (\<lambda>u.
       (case make_script title formula_v (float_str lib mw_v) smiles_v du_v of
          (voiceover, srt) \<Rightarrow>
            bind_io (write_text (path_join outdir ''voiceover.txt'') voiceover) (\<lambda>u.
            bind_io (write_text (path_join outdir ''captions.srt'') srt) (\<lambda>u.
            bind_io (\<lambda>f. (read_text (TPL_YT env) f, f)) (\<lambda>source.
            bind_io (io_of (jinja_render lib source
                       [(''title'', jval_of_opt title), (''smiles'', JStr smiles_v),
                        (''formula'', JStr formula_v), (''mw'', JFloat mw_v)])) (\<lambda>yt.
            write_text (path_join outdir ''YOUTUBE_DESCRIPTION.md'') yt)))))))) f2 = (Inr (), f')"
    by (drule_tac bind_io_InrD) blast
  obtain formula_v mw_v du_v where facts: "facts = (formula_v, mw_v, du_v)"
    by (cases facts) auto
  from s2 have cf: "compute_facts lib mol = Inr (formula_v, mw_v, du_v)"
    by (simp add: io_of_def facts)
  from r2 [unfolded facts prod.case] obtain sdf f3 where
      r3: "bind_io (render_html lib env
                \<lparr>p_title = title, p_smiles = smiles_v, p_formula = formula_v, p_mw = mw_v,
                 p_sdf = sdf, p_bullets = structure_bullets (arg_name a) du_v, p_du = None,
                 p_tutorial_id = None, p_subtitle = or_default (arg_tutorial a) []\<rparr> outdir) (\<lambda>u.
       (case make_script title formula_v (float_str lib mw_v) smiles_v du_v of
          (voiceover, srt) \<Rightarrow>
            bind_io (write_text (path_join outdir ''voiceover.txt'') voiceover) (\<lambda>u.
            bind_io (write_text (path_join outdir ''captions.srt'') srt) (\<lambda>u.
            bind_io (\<lambda>f. (read_text (TPL_YT env) f, f)) (\<lambda>source.
            bind_io (io_of (jinja_render lib source
                       [(''title'', jval_of_opt title), (''smiles'', JStr smiles_v),
                        (''formula'', JStr formula_v), (''mw'', JFloat mw_v)])) (\<lambda>yt.
            write_text (path_join outdir ''YOUTUBE_DESCRIPTION.md'') yt)))))) f3 = (Inr (), f')"
    by (drule_tac bind_io_InrD) blast
  from r3 obtain u f4 where
      s4: "render_html lib env
                \<lparr>p_title = title, p_smiles = smiles_v, p_formula = formula_v, p_mw = mw_v,
                 p_sdf = sdf, p_bullets = structure_bullets (arg_name a) du_v, p_du = None,
                 p_tutorial_id = None, p_subtitle = or_default (arg_tutorial a) []\<rparr> outdir f3 = (Inr u, f4)"
    and r4: "(case make_script title formula_v (float_str lib mw_v) smiles_v du_v of
          (voiceover, srt) \<Rightarrow>
            bind_io (write_text (path_join outdir ''voiceover.txt'') voiceover) (\<lambda>u.
            bind_io (write_text (path_join outdir ''captions.srt'') srt) (\<lambda>u.
            bind_io (\<lambda>f. (read_text (TPL_YT env) f, f)) (\<lambda>source.
            bind_io (io_of (jinja_render lib source
                       [(''title'', jval_of_opt title), (''smiles'', JStr smiles_v),
                        (''formula'', JStr formula_v), (''mw'', JFloat mw_v)])) (\<lambda>yt.
            write_text (path_join outdir ''YOUTUBE_DESCRIPTION.md'') yt))))) f4 = (Inr (), f')"
    by (drule_tac bind_io_InrD) blast
  from render_html_InrD [OF s4] obtain source html where
      j: "jinja_render lib source (page_kwargs
          \<lparr>p_title = title, p_smiles = smiles_v, p_formula = formula_v, p_mw = mw_v,
           p_sdf = sdf, p_bullets = structure_bullets (arg_name a) du_v, p_du = None,
           p_tutorial_id = None, p_subtitle = or_default (arg_tutorial a) []\<rparr>) = Inr html"
    and f4: "f4 = f3(path_join outdir ''index.html'' \<mapsto> html)"
    by blast
  have "f' (path_join outdir ''index.html'') = f4 (path_join outdir ''index.html'')"
    by (rule after_render_keeps_index [OF r4])
  then have "f' (path_join outdir ''index.html'') = Some html"
    by (simp add: f4)
  with cf j show ?thesis by blast
qed

text \<open>
  C9. The bullet list of the structure branch is the name-derived bullets (none without
  a name) followed by the sentence for the degree of unsaturation, which is its last
  item. When the structure branch of \<open>main\<close> completes, the page \<open>index.html\<close> is the
  template rendered with that list as its \<open>bullets\<close>.
\<close>

theorem structure_bullets_end_with_du:
  "structure_bullets name du =
     (if truthy name then make_bullets_from_name name else [])
       @ [''Double-bond equivalents (DU): '' @ fmt_1f du]
   \<and> last (structure_bullets name du) = ''Double-bond equivalents (DU): '' @ fmt_1f du
   \<and> (structure_mode lib env a title outdir f = (Inr (), f') \<longrightarrow>
       (\<exists>mol smiles_v formula_v mw_v du_v sdf source html.
          compute_facts lib mol = Inr (formula_v, mw_v, du_v)
        \<and> jinja_render lib source (page_kwargs
            \<lparr>p_title = title, p_smiles = smiles_v, p_formula = formula_v, p_mw = mw_v,
             p_sdf = sdf,
             p_bullets = (if truthy (arg_name a) then make_bullets_from_name (arg_name a) else [])
               @ [''Double-bond equivalents (DU): '' @ fmt_1f du_v],
             p_du = None, p_tutorial_id = None, p_subtitle = or_default (arg_tutorial a) []\<rparr>)
            = Inr html
        \<and> f' (path_join outdir ''index.html'') = Some html))"
proof (intro conjI impI)
  show "structure_bullets name du =
     (if truthy name then make_bullets_from_name name else [])
       @ [''Double-bond equivalents (DU): '' @ fmt_1f du]"
    by (rule structure_bullets_eq)
  show "last (structure_bullets name du) = ''Double-bond equivalents (DU): '' @ fmt_1f du"
    unfolding structure_bullets_eq by (rule last_snoc)
next
  assume "structure_mode lib env a title outdir f = (Inr (), f')"
  from structure_mode_InrD [OF this]
  show "\<exists>mol smiles_v formula_v mw_v du_v sdf source html.
          compute_facts lib mol = Inr (formula_v, mw_v, du_v)
        \<and> jinja_render lib source (page_kwargs
            \<lparr>p_title = title, p_smiles = smiles_v, p_formula = formula_v, p_mw = mw_v,
             p_sdf = sdf,
             p_bullets = (if truthy (arg_name a) then make_bullets_from_name (arg_name a) else [])
               @ [''Double-bond equivalents (DU): '' @ fmt_1f du_v],
             p_du = None, p_tutorial_id = None, p_subtitle = or_default (arg_tutorial a) []\<rparr>)
            = Inr html
        \<and> f' (path_join outdir ''index.html'') = Some html"
    unfolding structure_bullets_eq .
qed

lemma name_to_smiles_double:
  "name_to_smiles (opsin_double ''CCO'' 0) ''ethanol'' f =
     (Inr ''CCO'', f(''/tmp/opsin_in_0'' := None, ''/tmp/opsin_out_0'' := None))"
  unfolding name_to_smiles_def name_to_smiles_try_def check_call_def read_text_def Let_def
    opsin_double_def tmp_names_def unlink_quiet_eq
  by (auto simp: fun_eq_iff extract_smiles_eq is_space_def)

lemma findall_C2H6O: "findall ''C2H6O'' = [(''C'', ''2''), (''H'', ''6''), (''O'', [])]"
  by (simp add: char_classes findall.simps)

lemma formula_du_ethanol: "formula_du 2 6 0 0 = Inr (Half 0)"
  by (rule trans [OF formula_du_small]) simp_all

lemma compute_facts_double:
  "compute_facts rdkit_double m = Inr (''C2H6O'', ''46.0418'', Half 0)"
proof -
  have g: "get (dict [(''C'', ''2''), (''H'', ''6''), (''O'', [])]) ''C'' = Inr 2"
    "get (dict [(''C'', ''2''), (''H'', ''6''), (''O'', [])]) ''H'' = Inr 6"
    "get (dict [(''C'', ''2''), (''H'', ''6''), (''O'', [])]) ''N'' = Inr 0"
    "get (dict [(''C'', ''2''), (''H'', ''6''), (''O'', [])]) ''F'' = Inr 0"
    "get (dict [(''C'', ''2''), (''H'', ''6''), (''O'', [])]) ''Cl'' = Inr 0"
    "get (dict [(''C'', ''2''), (''H'', ''6''), (''O'', [])]) ''Br'' = Inr 0"
    "get (dict [(''C'', ''2''), (''H'', ''6''), (''O'', [])]) ''I'' = Inr 0"
    by (simp_all add: dict_def get_def py_int_def digit_val_def is_digit_def)
  have c: "CalcMolFormula rdkit_double m = ''C2H6O''"
    "round4 rdkit_double (CalcExactMolWt rdkit_double m) = ''46.0418''"
    by (simp_all add: rdkit_double_def)
  show ?thesis
    unfolding compute_facts_def Let_def c element_counts_def findall_C2H6O g bind_exc_def
    by (simp add: formula_du_ethanol)
qed

lemma structure_mode_double:
  "fst (structure_mode rdkit_double (opsin_double ''CCO'' 0) args_ethanol (Some ''ethanol'')
      ''out/ethanol'' templates_double) = Inr ()"
proof -
  have n: "(''ethanol'' :: string) \<noteq> []" by simp
  have m: "mol_from_any rdkit_double (opsin_double ''CCO'' 0) (Some ''ethanol'') None None templates_double
      = (Inr ((''CCO'', True), ''CCO''),
         templates_double(''/tmp/opsin_in_0'' := None, ''/tmp/opsin_out_0'' := None))"
    unfolding mol_from_any_name [OF n] name_to_smiles_double
    by (simp add: rdkit_double_def)
  have h: "here (opsin_double ''CCO'' 0) = ''/app''"
    by (simp add: opsin_double_def)
  have l: "embed_minimize rdkit_double x = Inr x" "draw_png rdkit_double x = Inr ''png''"
    "jinja_render rdkit_double source kwargs = Inr (concat (map fst kwargs))" for x source kwargs
    by (simp_all add: rdkit_double_def)
  have tp: "templates_double ''/app/templates/page.html.j2'' = Some ''page''"
    "templates_double ''/app/templates/youtube_desc.md.j2'' = Some ''description''"
    by (simp_all add: templates_double_def)
  show ?thesis
    unfolding structure_mode_def args_ethanol_def
    by (simp add: m compute_facts_double make_artifacts_def render_html_def bind_io_def io_of_def
        io_return_def write_text_def read_text_def TPL_HTML_def TPL_YT_def path_join_def h l
        tp Let_def split: prod.splits)
qed

theorem structure_bullets_end_with_du_witness:
  "structure_mode rdkit_double (opsin_double ''CCO'' 0) args_ethanol (Some ''ethanol'')
      ''out/ethanol'' templates_double
     = (Inr (), snd (structure_mode rdkit_double (opsin_double ''CCO'' 0) args_ethanol
          (Some ''ethanol'') ''out/ethanol'' templates_double))
   \<and> (\<exists>mol smiles_v formula_v mw_v du_v sdf source html.
          compute_facts rdkit_double mol = Inr (formula_v, mw_v, du_v)
        \<and> jinja_render rdkit_double source (page_kwargs
            \<lparr>p_title = Some ''ethanol'', p_smiles = smiles_v, p_formula = formula_v, p_mw = mw_v,
             p_sdf = sdf,
             p_bullets = (if truthy (arg_name args_ethanol)
                          then make_bullets_from_name (arg_name args_ethanol) else [])
               @ [''Double-bond equivalents (DU): '' @ fmt_1f du_v],
             p_du = None, p_tutorial_id = None,
             p_subtitle = or_default (arg_tutorial args_ethanol) []\<rparr>)
            = Inr html
        \<and> snd (structure_mode rdkit_double (opsin_double ''CCO'' 0) args_ethanol
              (Some ''ethanol'') ''out/ethanol'' templates_double)
            (path_join ''out/ethanol'' ''index.html'') = Some html)
   \<and> structure_bullets (Some ''ethanol'') (Half 0)
       = [''Parent chain includes: eth- (2 carbons).'', ''Double-bond equivalents (DU): 0.0'']"
proof -
  have run: "structure_mode rdkit_double (opsin_double ''CCO'' 0) args_ethanol (Some ''ethanol'')
      ''out/ethanol'' templates_double
     = (Inr (), snd (structure_mode rdkit_double (opsin_double ''CCO'' 0) args_ethanol
          (Some ''ethanol'') ''out/ethanol'' templates_double))"
    by (rule prod_eqI) (simp_all add: structure_mode_double)
  note t = structure_bullets_end_with_du [where name = "Some ''ethanol''" and du = "Half 0"
      and lib = rdkit_double and env = "opsin_double ''CCO'' 0" and a = args_ethanol
      and title = "Some ''ethanol''" and outdir = "''out/ethanol''" and f = templates_double]
  note page = t [THEN conjunct2, THEN conjunct2, THEN mp, OF run]
  have "structure_bullets (Some ''ethanol'') (Half 0)
       = [''Parent chain includes: eth- (2 carbons).'', ''Double-bond equivalents (DU): 0.0'']"
    unfolding t [THEN conjunct1]
    by (simp add: make_bullets_from_name_def str_nat.simps digit_char_def)
  with run page show ?thesis
    by (intro conjI) assumption+
qed

end
